theory Spec2Isabelle
  imports Complex_Main
begin

section \<open>Python primitives used by the pipeline\<close>

text \<open>
  Texts are \<^typ>\<open>string\<close>s, a character being a code point below 256. \<open>str.split()\<close>
  without arguments cuts a text at runs of whitespace and never yields an empty word;
  \<open>is_space\<close> is \<open>str.isspace\<close> on these code points. \<open>sep.join\<close>, \<open>str.strip\<close> and the
  slice \<open>xs[lo:hi]\<close> (negative bounds count from the end, both bounds are clipped to the
  list) are modelled as Python defines them. \<open>xs[i]\<close> is \<open>py_index\<close>. Exceptions that leave a
  function are values of \<open>py_error\<close>.

  Floats are the real numbers they denote. \<open>float_round p emin\<close> rounds a real to the
  nearest binary float with \<open>p\<close> significant bits, a tie going to the even significand and
  exponents below \<open>emin\<close> being subnormal; \<open>float32_of\<close> and \<open>float64_of\<close> are single and
  double precision. Overflow is not modelled: a value beyond the largest float keeps its
  magnitude and stands for infinity. \<open>py_round2\<close> is the decimal rounding of
  \<open>round(x, 2)\<close>, whose result Python stores as the double nearest to it.
\<close>

datatype py_error = IndexError | ValueError | AssertionError

definition is_space :: "char \<Rightarrow> bool" where
  "is_space c = (c \<in> set [CHR 0x09, CHR 0x0A, CHR 0x0B, CHR 0x0C, CHR 0x0D,
                           CHR 0x1C, CHR 0x1D, CHR 0x1E, CHR 0x1F, CHR 0x20,
                           CHR 0x85, CHR 0xA0])"

fun split_from :: "string \<Rightarrow> string \<Rightarrow> string list" where
  "split_from cur [] = (if cur = [] then [] else [cur])"
| "split_from cur (c # cs) =
     (if is_space c then (if cur = [] then split_from [] cs else cur # split_from [] cs)
      else split_from (cur @ [c]) cs)"

definition str_split :: "string \<Rightarrow> string list" where
  "str_split s = split_from [] s"

fun join :: "string \<Rightarrow> string list \<Rightarrow> string" where
  "join sep [] = []"
| "join sep [w] = w"
| "join sep (w # ws) = w @ sep @ join sep ws"

definition strip :: "string \<Rightarrow> string" where
  "strip s = rev (dropWhile is_space (rev (dropWhile is_space s)))"

definition slice_bound :: "nat \<Rightarrow> int \<Rightarrow> nat" where
  "slice_bound n k = (if k < 0 then nat (max (k + int n) 0) else min (nat k) n)"

definition py_slice :: "'a list \<Rightarrow> int \<Rightarrow> int \<Rightarrow> 'a list" where
  "py_slice xs lo hi =
     (let a = slice_bound (length xs) lo; b = slice_bound (length xs) hi
      in take (b - a) (drop a xs))"

definition nl :: string where
  "nl = [CHR 0x0A]"

definition py_index :: "'a list \<Rightarrow> int \<Rightarrow> py_error + 'a" where
  \<comment> \<open>\<open>xs[i]\<close>: a negative index counts from the end, an index out of range raises.\<close>
  "py_index xs i =
     (if 0 \<le> i \<and> i < int (length xs) then Inr (xs ! nat i)
      else if - int (length xs) \<le> i \<and> i < 0 then Inr (xs ! nat (i + int (length xs)))
      else Inl IndexError)"

definition py_round2 :: "real \<Rightarrow> real" where
  \<comment> \<open>\<open>round(x, 2)\<close>: the nearest multiple of 0.01, a tie going to the even one.\<close>
  "py_round2 x =
     (let y = x * 100; f = \<lfloor>y\<rfloor>; r = y - of_int f
      in of_int (if r < 1 / 2 then f else if 1 / 2 < r then f + 1
                 else if even f then f else f + 1) / 100)"

definition round_half_even :: "real \<Rightarrow> int" where
  "round_half_even y =
     (let f = \<lfloor>y\<rfloor>; r = y - of_int f
      in if r < 1 / 2 then f else if 1 / 2 < r then f + 1
         else if even f then f else f + 1)"

definition float_round :: "nat \<Rightarrow> int \<Rightarrow> real \<Rightarrow> real" where
  "float_round p emin x =
     (if x = 0 then 0
      else (let e = max \<lfloor>log 2 \<bar>x\<bar>\<rfloor> emin;
                ulp = 2 powr (of_int e - of_nat p + 1)
            in of_int (round_half_even (x / ulp)) * ulp))"

definition float32_of :: "real \<Rightarrow> real" where
  "float32_of x = float_round 24 (- 126) x"

definition float64_of :: "real \<Rightarrow> real" where
  "float64_of x = float_round 53 (- 1022) x"

section \<open>Chunker (\<open>embedder.py\<close>)\<close>

text \<open>
  \<open>chunk_text\<close> slides a window of \<open>chunk_size\<close> words forward by
  \<open>chunk_size - overlap\<close> words. The \<open>while\<close> loop is \<open>chunk_loop\<close>; it is a partial
  function, so that a run that never leaves the loop has the value \<open>None\<close>. The function
  has no \<open>raise\<close>.
\<close>

record chunk =
  ctext :: string
  csource :: string

partial_function (option) chunk_loop ::
  "string list \<Rightarrow> string \<Rightarrow> int \<Rightarrow> int \<Rightarrow> int \<Rightarrow> chunk list \<Rightarrow> chunk list option" where
  "chunk_loop words source_name chunk_size overlap i chunks =
     (if i < int (length words) then
        (let chunk = join '' '' (py_slice words i (i + chunk_size));
             chunks' = (if strip chunk \<noteq> [] then chunks @ [\<lparr>ctext = chunk, csource = source_name\<rparr>]
                        else chunks)
         in chunk_loop words source_name chunk_size overlap (i + (chunk_size - overlap)) chunks')
      else Some chunks)"

declare chunk_loop.simps [code]

definition chunk_text :: "string \<Rightarrow> string \<Rightarrow> int \<Rightarrow> int \<Rightarrow> chunk list option" where
  "chunk_text text source_name chunk_size overlap =
     chunk_loop (str_split text) source_name chunk_size overlap 0 []"

section \<open>External collaborators\<close>

text \<open>
  The sentence-transformer model, the FAISS search and the two HTTP backends are not part of
  the repository. They enter as the fields of an environment: \<open>encode\<close> is
  \<open>model.encode(text, normalize_embeddings=True)\<close>, \<open>faiss_search\<close> is \<open>index.search(emb, k)\<close>
  returning the first row of scores and the first row of positions, \<open>http_get\<close> and
  \<open>http_post\<close> are the calls of \<open>requests\<close>. A request either raises (with the text of the
  exception) or answers with a status code, the body \<open>response.text\<close> and the outcome of
  reading the generated text out of \<open>response.json()\<close>. The arithmetic of the runtime
  that depends on its version enters the same way: \<open>np_promote\<close> is the conversion NumPy
  applies to a Python float that is compared with a \<open>float32\<close> score (rounding to single
  precision since NumPy 2, none before), \<open>py_sum\<close> is the builtin \<open>sum\<close> on a list of
  floats (additions from left to right, compensated since Python 3.12). Scores are
  \<open>float32\<close> values and confidences are doubles. Each network call, each index search and
  each call of a progress callback is logged as an event, in the order of the calls.
\<close>

type_synonym embedding = "real list"

record faiss_index =
  index_d :: nat
  vectors :: "embedding list"

record http_response =
  status_code :: nat
  resp_text :: string
  json_text :: "string + string"

datatype http_outcome = Raised string | Responded http_response

datatype event = HttpGet string | HttpPost string string string | IndexSearch int | Progress real

record env =
  encode :: "string \<Rightarrow> embedding"
  faiss_search :: "faiss_index \<Rightarrow> embedding \<Rightarrow> int \<Rightarrow> real list \<times> int list"
  http_get :: "string \<Rightarrow> http_outcome"
  http_post :: "string \<Rightarrow> string \<Rightarrow> string \<Rightarrow> http_outcome"
  GROQ_API_KEY :: string
  np_promote :: "real \<Rightarrow> real"
  py_sum :: "real list \<Rightarrow> real"

section \<open>Vector index store (\<open>embedder.py\<close>)\<close>

text \<open>
  The store is a set of directories and a map from paths to the two kinds of artifact.
  \<open>np.stack\<close> raises \<open>ValueError\<close> on an empty list and on vectors of different shapes;
  \<open>index.add\<close> asserts the dimension of the index.
\<close>

datatype artifact = IndexFile faiss_index | ChunksFile "chunk list"

record fs_state =
  dirs :: "string set"
  files :: "string \<rightharpoonup> artifact"

definition FAISS_BASE_PATH :: string where
  "FAISS_BASE_PATH = ''faiss_store''"

definition EMBEDDING_DIM :: nat where
  "EMBEDDING_DIM = 384"

fun str_nat :: "nat \<Rightarrow> string" where
  "str_nat n = (if n < 10 then [char_of (48 + n)]
                else str_nat (n div 10) @ [char_of (48 + n mod 10)])"

definition str_int :: "int \<Rightarrow> string" where
  "str_int i = (if i < 0 then CHR ''-'' # str_nat (nat (- i)) else str_nat (nat i))"

definition path_join :: "string \<Rightarrow> string \<Rightarrow> string" where
  "path_join a b =
     (if b \<noteq> [] \<and> hd b = CHR 0x2F then b
      else if a = [] \<or> last a = CHR 0x2F then a @ b
      else a @ [CHR 0x2F] @ b)"

definition parents :: "string \<Rightarrow> string list" where
  "parents p = map (\<lambda>i. take i p) (filter (\<lambda>i. p ! i = CHR 0x2F) [1..<length p])"

definition makedirs :: "fs_state \<Rightarrow> string \<Rightarrow> fs_state" where
  \<comment> \<open>\<open>os.makedirs(path, exist_ok=True)\<close>\<close>
  "makedirs fs p = fs\<lparr>dirs := dirs fs \<union> set (parents p) \<union> {p}\<rparr>"

definition get_user_paths :: "fs_state \<Rightarrow> int \<Rightarrow> fs_state \<times> string \<times> string" where
  "get_user_paths fs user_id =
     (let user_dir = path_join FAISS_BASE_PATH (''user_'' @ str_int user_id);
          fs' = makedirs fs user_dir;
          index_path = path_join user_dir ''store.index'';
          chunks_path = path_join user_dir ''chunks.pkl''
      in (fs', index_path, chunks_path))"

definition dirname :: "string \<Rightarrow> string" where
  "dirname p =
     (let head = rev (dropWhile (\<lambda>c. c \<noteq> CHR 0x2F) (rev p))
      in if head \<noteq> [] \<and> \<not> list_all (\<lambda>c. c = CHR 0x2F) head
         then rev (dropWhile (\<lambda>c. c = CHR 0x2F) (rev head)) else head)"

definition get_embedding :: "env \<Rightarrow> string \<Rightarrow> embedding" where
  "get_embedding e s = encode e s"

definition np_stack :: "embedding list \<Rightarrow> py_error + embedding list" where
  "np_stack vs =
     (if vs = [] then Inl ValueError
      else if list_ex (\<lambda>v. length v \<noteq> length (hd vs)) vs then Inl ValueError
      else Inr vs)"

definition index_add :: "faiss_index \<Rightarrow> embedding list \<Rightarrow> py_error + faiss_index" where
  "index_add index matrix =
     (if list_ex (\<lambda>v. length v \<noteq> index_d index) matrix then Inl AssertionError
      else Inr (index\<lparr>vectors := vectors index @ matrix\<rparr>))"

definition build_index ::
  "env \<Rightarrow> fs_state \<Rightarrow> chunk list \<Rightarrow> int \<Rightarrow> (py_error + faiss_index \<times> chunk list) \<times> fs_state" where
  "build_index e fs all_chunks user_id =
     (let (fs1, index_path, chunks_path) = get_user_paths fs user_id;
          fs2 = makedirs fs1 (dirname index_path);
          dim = EMBEDDING_DIM;
          index = \<lparr>index_d = dim, vectors = []\<rparr>;
          vectors = map (\<lambda>chunk. get_embedding e (ctext chunk)) all_chunks
      in case np_stack vectors of
           Inl err \<Rightarrow> (Inl err, fs2)
         | Inr matrix \<Rightarrow>
             (case index_add index matrix of
                Inl err \<Rightarrow> (Inl err, fs2)
              | Inr index' \<Rightarrow>
                  (let fs3 = fs2\<lparr>files := (files fs2)(index_path \<mapsto> IndexFile index')\<rparr>;
                       fs4 = fs3\<lparr>files := (files fs3)(chunks_path \<mapsto> ChunksFile all_chunks)\<rparr>
                   in (Inr (index', all_chunks), fs4))))"

section \<open>Retriever (\<open>embedder.py\<close>)\<close>

record retrieval_result =
  rtext :: string
  rsource :: string
  score :: real

definition np_ge :: "env \<Rightarrow> real \<Rightarrow> real \<Rightarrow> bool" where
  \<comment> \<open>\<open>score >= threshold\<close> for a \<open>float32\<close> score and a Python float\<close>
  "np_ge e s threshold = (np_promote e threshold \<le> s)"

fun retrieve_loop ::
  "env \<Rightarrow> chunk list \<Rightarrow> real \<Rightarrow> (real \<times> int) list \<Rightarrow> retrieval_result list
     \<Rightarrow> py_error + retrieval_result list" where
  "retrieve_loop e chunks threshold [] results = Inr results"
| "retrieve_loop e chunks threshold ((s, idx) # hits) results =
     (if np_ge e s threshold \<and> idx < int (length chunks) then
        (case py_index chunks idx of
           Inl err \<Rightarrow> Inl err
         | Inr c \<Rightarrow>
             retrieve_loop e chunks threshold hits
               (results @ [\<lparr>rtext = ctext c, rsource = csource c, score = s\<rparr>]))
      else retrieve_loop e chunks threshold hits results)"

definition DEFAULT_TOP_K :: int where
  \<comment> \<open>the default \<open>top_k: int = 3\<close>\<close>
  "DEFAULT_TOP_K = 3"

definition DEFAULT_THRESHOLD :: real where
  \<comment> \<open>the default \<open>threshold: float = 0.35\<close>\<close>
  "DEFAULT_THRESHOLD = 35 / 100"

definition retrieve ::
  "env \<Rightarrow> string \<Rightarrow> faiss_index \<Rightarrow> chunk list \<Rightarrow> int \<Rightarrow> real
     \<Rightarrow> (py_error + retrieval_result list) \<times> event list" where
  "retrieve e question index chunks top_k threshold =
     (let emb = get_embedding e question;
          (scores, indices) = faiss_search e index emb top_k
      in (retrieve_loop e chunks threshold (zip scores indices) [], [IndexSearch top_k]))"

section \<open>Generation gateway (\<open>rag.py\<close>)\<close>

definition OLLAMA_HOST :: string where
  "OLLAMA_HOST = ''http://localhost:11434''"

definition OLLAMA_MODEL :: string where
  "OLLAMA_MODEL = ''llama3''"

definition GROQ_MODEL :: string where
  "GROQ_MODEL = ''llama-3.1-8b-instant''"

definition GROQ_URL :: string where
  "GROQ_URL = ''https://api.groq.com/openai/v1/chat/completions''"

definition SYSTEM_PROMPT :: string where
  "SYSTEM_PROMPT = concat
     [''You are a compliance and security questionnaire assistant. Your task is to answer '',
      nl,
      ''questions using ONLY the provided context from reference documents. '',
      nl,
      nl,
      ''Guidelines:'',
      nl,
      ''1. Be concise and factual'',
      nl,
      ''2. If the context does not contain enough information to answer the question, respond with exactly: Not found in references.'',
      nl,
      ''3. Do not make up information or infer beyond what'',
      [CHR 0x27],
      ''s in the context'',
      nl,
      ''4. Focus on accuracy and cite relevant details when available'',
      nl,
      ''5. Format your answer as a complete, professional response suitable for a security questionnaire'']"

definition NO_CONTEXT_RESPONSE :: string where
  "NO_CONTEXT_RESPONSE = ''Not found in references.''"

definition check_ollama_available :: "env \<Rightarrow> bool \<times> event list" where
  \<comment> \<open>The bare \<open>except\<close> turns every exception of the request into \<open>False\<close>.\<close>
  "check_ollama_available e =
     (let url = OLLAMA_HOST @ ''/api/tags''
      in (case http_get e url of
            Raised msg \<Rightarrow> False
          | Responded response \<Rightarrow> status_code response = 200,
          [HttpGet url]))"

definition generate_with_ollama ::
  "env \<Rightarrow> string \<Rightarrow> string \<Rightarrow> (string + string) \<times> event list" where
  \<comment> \<open>\<open>Inl msg\<close>: the call raised an exception \<open>e\<close> with \<open>str(e) = msg\<close>.\<close>
  "generate_with_ollama e prompt model =
     (let url = OLLAMA_HOST @ ''/api/generate''
      in (case http_post e url model prompt of
            Raised msg \<Rightarrow> Inl msg
          | Responded response \<Rightarrow>
              if status_code response = 200 then
                (case json_text response of Inl msg \<Rightarrow> Inl msg | Inr t \<Rightarrow> Inr (strip t))
              else Inl (''Ollama error: '' @ resp_text response),
          [HttpPost url model prompt]))"

definition check_groq_available :: "env \<Rightarrow> bool" where
  "check_groq_available e = (GROQ_API_KEY e \<noteq> [])"

definition generate_with_groq ::
  "env \<Rightarrow> string \<Rightarrow> string \<Rightarrow> (string + string) \<times> event list" where
  "generate_with_groq e prompt model =
     (if GROQ_API_KEY e = [] then (Inl ''GROQ_API_KEY not set in environment'', [])
      else
        (case http_post e GROQ_URL model prompt of
           Raised msg \<Rightarrow> Inl msg
         | Responded response \<Rightarrow>
             if status_code response = 200 then
               (case json_text response of Inl msg \<Rightarrow> Inl msg | Inr t \<Rightarrow> Inr (strip t))
             else Inl (''Groq error: '' @ resp_text response),
         [HttpPost GROQ_URL model prompt]))"

section \<open>Synthesizer and scorer (\<open>rag.py\<close>)\<close>

text \<open>
  A dictionary keeps its keys in insertion order; \<open>dict.fromkeys\<close> inserts the keys one by
  one with the value \<open>None\<close>, and storing under a key that is present keeps its place.
  \<open>list(d)\<close> is the list of keys.
\<close>

definition dict_setitem :: "('k \<times> 'v) list \<Rightarrow> 'k \<Rightarrow> 'v \<Rightarrow> ('k \<times> 'v) list" where
  "dict_setitem dict k v =
     (if k \<in> set (map fst dict)
      then map (\<lambda>(k', v'). if k' = k then (k', v) else (k', v')) dict
      else dict @ [(k, v)])"

definition dict_fromkeys :: "'k list \<Rightarrow> ('k \<times> unit) list" where
  "dict_fromkeys ks = fold (\<lambda>k dict. dict_setitem dict k ()) ks []"

definition dict_keys :: "('k \<times> 'v) list \<Rightarrow> 'k list" where
  "dict_keys dict = map fst dict"

record answer_record =
  answer :: string
  citation :: string
  confidence :: real
  snippet :: string

record question_record =
  number :: int
  question :: string

definition build_context :: "retrieval_result list \<Rightarrow> string" where
  "build_context retrieved =
     join (nl @ nl) (map (\<lambda>r. ''['' @ rsource r @ '']'' @ nl @ rtext r) retrieved)"

definition build_prompt :: "string \<Rightarrow> string \<Rightarrow> string" where
  "build_prompt context q =
     SYSTEM_PROMPT @ nl @ nl @ ''Context:'' @ nl @ context @ nl @ nl @ ''Question: '' @ q
       @ nl @ nl @ ''Answer:''"

definition generate :: "env \<Rightarrow> bool \<Rightarrow> string \<Rightarrow> (string + string) \<times> event list" where
  \<comment> \<open>The body of the \<open>try\<close> block.\<close>
  "generate e use_groq prompt =
     (if use_groq then generate_with_groq e prompt GROQ_MODEL
      else generate_with_ollama e prompt OLLAMA_MODEL)"

definition generate_answer ::
  "env \<Rightarrow> string \<Rightarrow> faiss_index \<Rightarrow> chunk list
     \<Rightarrow> (py_error + answer_record) \<times> event list" where
  "generate_answer e q index chunks =
     (let use_groq = check_groq_available e;
          (use_ollama, ev1) = check_ollama_available e
      in if \<not> use_groq \<and> \<not> use_ollama then
           (Inr \<lparr>answer = ''No LLM available. Please configure GROQ_API_KEY or start Ollama.'',
                 citation = ''N/A'', confidence = 0, snippet = []\<rparr>, ev1)
         else
           (case retrieve e q index chunks DEFAULT_TOP_K DEFAULT_THRESHOLD of
              (Inl err, ev2) \<Rightarrow> (Inl err, ev1 @ ev2)
            | (Inr retrieved, ev2) \<Rightarrow>
                (case retrieved of
                   [] \<Rightarrow>
                     (Inr \<lparr>answer = NO_CONTEXT_RESPONSE, citation = ''N/A'', confidence = 0,
                           snippet = []\<rparr>, ev1 @ ev2)
                 | r0 # _ \<Rightarrow>
                     (let context = build_context retrieved;
                          avg_score = sum_list (map score retrieved) / real (length retrieved);
                          prompt = build_prompt context q;
                          (result, ev3) = generate e use_groq prompt
                      in case result of
                           Inl msg \<Rightarrow>
                             (Inr \<lparr>answer = ''Error generating answer: '' @ msg,
                                   citation = ''N/A'', confidence = 0, snippet = []\<rparr>,
                              ev1 @ ev2 @ ev3)
                         | Inr generated \<Rightarrow>
                             (let all_sources = dict_keys (dict_fromkeys (map rsource retrieved));
                                  cit = join '', '' all_sources;
                                  snip = (if rtext r0 \<noteq> [] then take 300 (rtext r0) @ ''...''
                                          else [])
                              in (Inr \<lparr>answer = generated, citation = cit,
                                       confidence = py_round2 avg_score, snippet = snip\<rparr>,
                                  ev1 @ ev2 @ ev3))))))"

fun batch_loop ::
  "env \<Rightarrow> faiss_index \<Rightarrow> chunk list \<Rightarrow> bool \<Rightarrow> nat \<Rightarrow> nat \<Rightarrow> question_record list
     \<Rightarrow> question_record answer_record_scheme list \<Rightarrow> event list
     \<Rightarrow> (py_error + question_record answer_record_scheme list) \<times> event list" where
  "batch_loop e index chunks progress_callback total_n i [] answers evs = (Inr answers, evs)"
| "batch_loop e index chunks progress_callback total_n i (qr # rest) answers evs =
     (case generate_answer e (question qr) index chunks of
        (Inl err, ev) \<Rightarrow> (Inl err, evs @ ev)
      | (Inr result, ev) \<Rightarrow>
          batch_loop e index chunks progress_callback total_n (i + 1) rest
            (answers @ [answer_record.extend result qr])
            (evs @ ev @ (if progress_callback then [Progress ((real i + 1) / real total_n)] else [])))"

definition generate_batch_answers ::
  "env \<Rightarrow> question_record list \<Rightarrow> faiss_index \<Rightarrow> chunk list \<Rightarrow> bool
     \<Rightarrow> (py_error + question_record answer_record_scheme list) \<times> event list" where
  \<comment> \<open>\<open>progress_callback\<close> tells whether a callback was passed; its calls are logged.\<close>
  "generate_batch_answers e questions index chunks progress_callback =
     batch_loop e index chunks progress_callback (length questions) 0 questions [] []"



section \<open>Auxiliary notions for the proofs\<close>

text \<open>
  \<open>clean_words\<close> describes the output of \<open>str_split\<close>; \<open>chunk_count\<close> and \<open>mk_chunk\<close>
  give the closed form of the loop; \<open>chunk_words\<close> reads the words of a chunk back with the
  same \<open>str_split\<close>. \<open>spec_chunk_count\<close> is the chunk count as the specification words it,
  \<open>ceil(max(W - overlap, 0) / (chunk_size - overlap))\<close>, kept apart from the code's count.
  \<open>first_occurrences\<close> is deduplication as the specification words it: an element is kept
  where it occurs first. \<open>hits_valid\<close> is the contract of the FAISS search that the
  synthesizer relies on: a hit that clears the threshold has a position that is not
  negative (FAISS pads a short result with position \<open>-1\<close> at the lowest float score).
\<close>

definition clean_words :: "string list \<Rightarrow> bool" where
  "clean_words ws = (\<forall>w\<in>set ws. w \<noteq> [] \<and> (\<forall>c\<in>set w. \<not> is_space c))"

definition chunk_count :: "nat \<Rightarrow> nat \<Rightarrow> nat \<Rightarrow> nat" where
  "chunk_count W j step = (W - j + step - 1) div step"

definition mk_chunk :: "string list \<Rightarrow> string \<Rightarrow> nat \<Rightarrow> nat \<Rightarrow> chunk" where
  "mk_chunk ws src cs p = \<lparr>ctext = join '' '' (take cs (drop p ws)), csource = src\<rparr>"

definition chunk_words :: "chunk \<Rightarrow> string list" where
  "chunk_words c = str_split (ctext c)"

definition spec_chunk_count :: "int \<Rightarrow> int \<Rightarrow> int \<Rightarrow> int" where
  "spec_chunk_count W chunk_size overlap =
     \<lceil>real_of_int (max (W - overlap) 0) / real_of_int (chunk_size - overlap)\<rceil>"

fun first_occurrences :: "'a list \<Rightarrow> 'a list \<Rightarrow> 'a list" where
  "first_occurrences seen [] = []"
| "first_occurrences seen (x # xs) =
     (if x \<in> set seen then first_occurrences seen xs
      else x # first_occurrences (x # seen) xs)"

definition hits_valid :: "env \<Rightarrow> faiss_index \<Rightarrow> real \<Rightarrow> bool" where
  "hits_valid e index threshold =
     (\<forall>emb k. list_all (\<lambda>(s, idx). np_ge e s threshold \<longrightarrow> 0 \<le> idx)
        (zip (fst (faiss_search e index emb k)) (snd (faiss_search e index emb k))))"

section \<open>Sample inputs\<close>

text \<open>
  Concrete environments, chunk lists and answer records at which the theorems below are
  instantiated. Every environment runs NumPy 2 (\<open>np_promote\<close> rounds to single precision)
  and sums from left to right (\<open>seq_sum\<close>). \<open>offline_env\<close> has no provider; \<open>silent_env\<close>
  has a credential and an index without hits; \<open>groq_env\<close> has a credential and a backend
  that answers; \<open>flaky_env\<close> times out on the prompt of one question. \<open>padded_env\<close>,
  \<open>flaky_env\<close> and \<open>boundary_env\<close> return a result padded with position \<open>-1\<close> at score
  \<open>-FLT_MAX\<close>, as a FAISS index holding fewer vectors than \<open>top_k\<close> does; the first hit
  of \<open>boundary_env\<close> scores exactly the single-precision value of 0.35.
\<close>

definition seq_sum :: "real list \<Rightarrow> real" where
  "seq_sum xs = foldl (\<lambda>acc x. float64_of (acc + x)) 0 xs"

definition silent_env :: env where
  "silent_env =
     \<lparr>encode = (\<lambda>s. [1]),
      faiss_search = (\<lambda>index emb k. ([], [])),
      http_get = (\<lambda>url. Raised ''Connection refused''),
      http_post = (\<lambda>url model prompt. Raised ''Connection refused''),
      GROQ_API_KEY = ''gsk_test'', np_promote = float32_of, py_sum = seq_sum\<rparr>"

definition empty_index :: faiss_index where
  "empty_index = \<lparr>index_d = 384, vectors = []\<rparr>"

definition two_chunks :: "chunk list" where
  "two_chunks = [\<lparr>ctext = ''Backups run nightly'', csource = ''ops.pdf''\<rparr>,
                 \<lparr>ctext = ''Data is encrypted with AES-256'', csource = ''policy.pdf''\<rparr>]"

definition blank_chunks :: "chunk list" where
  "blank_chunks = [\<lparr>ctext = [], csource = ''scan.pdf''\<rparr>,
                   \<lparr>ctext = [], csource = ''scan.pdf''\<rparr>]"

definition offline_env :: env where
  "offline_env =
     \<lparr>encode = (\<lambda>s. [1]),
      faiss_search = (\<lambda>index emb k. ([], [])),
      http_get = (\<lambda>url. Raised ''Connection refused''),
      http_post = (\<lambda>url model prompt. Raised ''Connection refused''),
      GROQ_API_KEY = [], np_promote = float32_of, py_sum = seq_sum\<rparr>"

definition padded_env :: env where
  "padded_env =
     \<lparr>encode = (\<lambda>s. [1]),
      faiss_search = (\<lambda>index emb k.
         ([9 / 10, 1 / 2, - 340282346638528859811704183484516925440], [1, 0, - 1])),
      http_get = (\<lambda>url. Raised ''Connection refused''),
      http_post = (\<lambda>url model prompt. Raised ''Connection refused''),
      GROQ_API_KEY = [], np_promote = float32_of, py_sum = seq_sum\<rparr>"

definition boundary_env :: env where
  "boundary_env =
     \<lparr>encode = (\<lambda>s. [1]),
      faiss_search = (\<lambda>index emb k.
         ([11744051 / 33554432, - 340282346638528859811704183484516925440,
           - 340282346638528859811704183484516925440], [0, - 1, - 1])),
      http_get = (\<lambda>url. Raised ''Connection refused''),
      http_post = (\<lambda>url model prompt. Raised ''Connection refused''),
      GROQ_API_KEY = [], np_promote = float32_of, py_sum = seq_sum\<rparr>"

definition groq_env :: env where
  "groq_env =
     \<lparr>encode = (\<lambda>s. [1]),
      faiss_search = (\<lambda>index emb k. ([9 / 10, 1 / 2, 41 / 100], [1, 0, 1])),
      http_get = (\<lambda>url. Raised ''Connection refused''),
      http_post = (\<lambda>url model prompt.
         Responded \<lparr>status_code = 200, resp_text = ''{...}'', json_text = Inr '' Yes. ''\<rparr>),
      GROQ_API_KEY = ''gsk_test'', np_promote = float32_of, py_sum = seq_sum\<rparr>"

definition flaky_env :: env where
  "flaky_env =
     \<lparr>encode = (\<lambda>s. [1]),
      faiss_search = (\<lambda>index emb k. ([9 / 10, - 340282346638528859811704183484516925440], [0, - 1])),
      http_get = (\<lambda>url. Raised ''Connection refused''),
      http_post = (\<lambda>url model prompt.
         if prompt = build_prompt
              (build_context [\<lparr>rtext = ''Backups run nightly'', rsource = ''ops.pdf'', score = 9 / 10\<rparr>])
              ''Q1?''
         then Raised ''Read timed out.''
         else Responded \<lparr>status_code = 200, resp_text = ''{...}'', json_text = Inr ''Yes.''\<rparr>),
      GROQ_API_KEY = ''gsk_test'', np_promote = float32_of, py_sum = seq_sum\<rparr>"




section \<open>Properties of the chunker\<close>

subsection \<open>Words, joining and stripping\<close>

lemma clean_words_Nil [simp]: "clean_words []"
  by (simp add: clean_words_def)

lemma clean_words_Cons [simp]:
  "clean_words (w # ws) \<longleftrightarrow> w \<noteq> [] \<and> (\<forall>c\<in>set w. \<not> is_space c) \<and> clean_words ws"
  by (auto simp: clean_words_def)

lemma split_from_clean:
  "\<forall>c\<in>set cur. \<not> is_space c \<Longrightarrow> clean_words (split_from cur s)"
  by (induction cur s rule: split_from.induct) simp_all

lemma str_split_clean: "clean_words (str_split s)"
  by (simp add: str_split_def split_from_clean)

lemma strip_eq_Nil: "strip s = [] \<longleftrightarrow> (\<forall>c\<in>set s. is_space c)"
proof
  assume "strip s = []"
  then have "\<forall>c\<in>set (dropWhile is_space s). is_space c"
    by (simp add: strip_def)
  then have "dropWhile is_space s = []"
    using hd_dropWhile [of is_space s] hd_in_set [of "dropWhile is_space s"] by blast
  then show "\<forall>c\<in>set s. is_space c"
    by simp
next
  assume "\<forall>c\<in>set s. is_space c"
  then have d: "dropWhile is_space s = []"
    by simp
  show "strip s = []"
    unfolding strip_def d by simp
qed

lemma set_join_hd: "set w \<subseteq> set (join sep (w # ws))"
  by (cases ws) auto

lemma strip_join_clean:
  assumes "clean_words ws" and "ws \<noteq> []"
  shows "strip (join sep ws) \<noteq> []"
proof -
  obtain w ws' where ws: "ws = w # ws'"
    using assms(2) by (cases ws) auto
  with assms(1) obtain c where c: "c \<in> set w" "\<not> is_space c"
    by (cases w) auto
  then have "c \<in> set (join sep ws)"
    using set_join_hd [of w sep ws'] ws by blast
  with c(2) show ?thesis
    by (auto simp: strip_eq_Nil)
qed

lemma clean_words_take_drop: "clean_words ws \<Longrightarrow> clean_words (take n (drop j ws))"
  by (auto simp: clean_words_def dest: in_set_takeD in_set_dropD)

lemma py_slice_nonneg:
  "py_slice xs (int j) (int j + int n) = take n (drop j xs)"
proof (cases "j \<le> length xs")
  case True
  then have "min (j + n) (length xs) - j = min n (length xs - j)"
    by simp
  moreover have "take (min n (length xs - j)) (drop j xs) = take n (drop j xs)"
    by (cases "n \<le> length xs - j") (simp_all add: min_def)
  ultimately show ?thesis
    using True by (simp add: py_slice_def slice_bound_def Let_def nat_add_distrib min_absorb1)
next
  case False
  then show ?thesis
    by (simp add: py_slice_def slice_bound_def Let_def nat_add_distrib min_absorb2)
qed

lemma chunk_count_done: "W \<le> j \<Longrightarrow> 0 < step \<Longrightarrow> chunk_count W j step = 0"
  by (simp add: chunk_count_def)

lemma chunk_count_step:
  assumes "j < W" and "0 < step"
  shows "chunk_count W j step = Suc (chunk_count W (j + step) step)"
proof (cases "j + step \<le> W")
  case True
  then obtain d where d: "W = j + step + d"
    using le_iff_add by blast
  obtain s where s: "step = Suc s"
    using assms(2) gr0_conv_Suc by blast
  have "W - j + step - 1 = (d + s) + step"
    unfolding d s by simp
  moreover have "W - (j + step) + step - 1 = d + s"
    unfolding d s by simp
  moreover have "(d + s + step) div step = Suc ((d + s) div step)"
    using assms(2) by simp
  ultimately have "(W - j + step - 1) div step = Suc ((W - (j + step) + step - 1) div step)"
    by (simp only:)
  then show ?thesis
    unfolding chunk_count_def .
next
  case False
  then have z: "W - (j + step) = 0"
    by simp
  have "step \<le> W - j + step - 1" and "W - j + step - 1 < 2 * step"
    using False assms by simp_all
  then have "(W - j + step - 1) div step = 1"
    by (intro div_nat_eqI) simp_all
  moreover have "(W - (j + step) + step - 1) div step = 0"
    using assms(2) unfolding z by simp
  ultimately show ?thesis
    unfolding chunk_count_def by simp
qed

lemma map_upt_Suc_shift: "map g [0..<Suc n] = g 0 # map (\<lambda>k. g (Suc k)) [0..<n]"
  by (induction n) simp_all

lemma chunk_loop_windows:
  assumes "clean_words ws" and "0 < cs" and "0 < step"
  shows "chunk_loop ws src (int cs) (int cs - int step) (int j) acc =
         Some (acc @ map (\<lambda>k. mk_chunk ws src cs (j + k * step))
                        [0..<chunk_count (length ws) j step])"
proof (induction "length ws - j" arbitrary: j acc rule: less_induct)
  case less
  show ?case
  proof (cases "j < length ws")
    case False
    then have "chunk_count (length ws) j step = 0"
      using assms(3) by (simp add: chunk_count_done)
    moreover have "chunk_loop ws src (int cs) (int cs - int step) (int j) acc = Some acc"
      using False by (subst chunk_loop.simps) simp
    ultimately show ?thesis by simp
  next
    case True
    have ne: "strip (join '' '' (take cs (drop j ws))) \<noteq> []"
      using assms(1,2) True by (intro strip_join_clean clean_words_take_drop) auto
    have "chunk_loop ws src (int cs) (int cs - int step) (int j) acc =
          chunk_loop ws src (int cs) (int cs - int step) (int (j + step))
            (acc @ [mk_chunk ws src cs j])"
      using True ne
      by (subst chunk_loop.simps) (simp add: py_slice_nonneg mk_chunk_def Let_def)
    also have "\<dots> = Some ((acc @ [mk_chunk ws src cs j]) @
          map (\<lambda>k. mk_chunk ws src cs (j + step + k * step))
              [0..<chunk_count (length ws) (j + step) step])"
      using True assms(3) by (intro less) simp
    finally show ?thesis
      unfolding chunk_count_step [OF True assms(3)] map_upt_Suc_shift
      by (simp add: add.assoc add.commute [of step])
  qed
qed


lemma is_space_blank [simp]: "is_space CHR '' ''"
  by (simp add: is_space_def)

lemma split_from_append_clean:
  "\<forall>c\<in>set w. \<not> is_space c \<Longrightarrow> split_from cur (w @ s) = split_from (cur @ w) s"
  by (induction w arbitrary: cur) simp_all

lemma str_split_join: "clean_words ws \<Longrightarrow> str_split (join '' '' ws) = ws"
proof (induction ws)
  case Nil
  then show ?case by (simp add: str_split_def)
next
  case (Cons w ws)
  show ?case
  proof (cases ws)
    case Nil
    with Cons.prems show ?thesis
      using split_from_append_clean [of w "[]" "[]"] by (simp add: str_split_def)
  next
    case (Cons v va)
    with Cons.prems Cons.IH show ?thesis
      using split_from_append_clean [of w "[]" "CHR '' '' # join '' '' (v # va)"]
      by (simp add: str_split_def)
  qed
qed

lemma chunk_loop_terminates:
  assumes "ov < cs"
  shows "\<exists>y. chunk_loop ws src cs ov i acc = Some y"
proof (induction "nat (int (length ws) - i)" arbitrary: i acc rule: less_induct)
  case less
  show ?case
  proof (cases "i < int (length ws)")
    case False
    then show ?thesis
      by (subst chunk_loop.simps) simp
  next
    case True
    then have "nat (int (length ws) - (i + (cs - ov))) < nat (int (length ws) - i)"
      using assms by simp
    from less [OF this] show ?thesis
      using True by (subst chunk_loop.simps) (simp add: Let_def)
  qed
qed


lemma chunk_loop_Some_imp:
  assumes "chunk_loop ws src cs ov i acc = Some y"
  shows "\<not> (cs \<le> ov \<and> i < int (length ws))"
  using assms
proof (rule chunk_loop.raw_induct [rotated 1,
        where P = "\<lambda>ws src cs ov i acc y. \<not> (cs \<le> ov \<and> i < int (length ws))"])
  fix f :: "string list \<Rightarrow> string \<Rightarrow> int \<Rightarrow> int \<Rightarrow> int \<Rightarrow> chunk list \<Rightarrow> chunk list option"
  fix ws src cs ov i acc y
  assume IH: "\<And>ws src cs ov i acc y. f ws src cs ov i acc = Some y \<Longrightarrow> \<not> (cs \<le> ov \<and> i < int (length ws))"
  assume body: "(if i < int (length ws) then
        (let chunk = join '' '' (py_slice ws i (i + cs));
             chunks' = (if strip chunk \<noteq> [] then acc @ [\<lparr>ctext = chunk, csource = src\<rparr>]
                        else acc)
         in f ws src cs ov (i + (cs - ov)) chunks')
      else Some acc) = Some y"
  show "\<not> (cs \<le> ov \<and> i < int (length ws))"
  proof
    assume a: "cs \<le> ov \<and> i < int (length ws)"
    then have "i + (cs - ov) < int (length ws)"
      by simp
    moreover obtain acc' where "f ws src cs ov (i + (cs - ov)) acc' = Some y"
      using body a by (simp add: Let_def)
    ultimately show False
      using IH a by blast
  qed
qed

lemma chunk_loop_diverges:
  assumes "cs \<le> ov" and "i < int (length ws)"
  shows "chunk_loop ws src cs ov i acc = None"
  using assms chunk_loop_Some_imp [of ws src cs ov i acc]
  by (cases "chunk_loop ws src cs ov i acc") auto

lemma ceiling_div_nat:
  assumes "0 < step"
  shows "\<lceil>real W / real step\<rceil> = int ((W + step - 1) div step)"
proof -
  define n where "n = (W + step - 1) div step"
  have eq: "n * step + (W + step - 1) mod step = W + step - 1"
    unfolding n_def by simp
  have r: "(W + step - 1) mod step < step"
    using assms by simp
  have le: "W \<le> n * step"
    using eq r by linarith
  have lt: "n * step < W + step"
    using eq r assms by linarith
  have "real W \<le> real (n * step)"
    using le by (simp only: of_nat_le_iff)
  then have up: "real W / real step \<le> real n"
    using assms by (simp add: pos_divide_le_eq)
  have "real (n * step) < real (W + step)"
    using lt by (simp only: of_nat_less_iff)
  then have "(real n - 1) * real step < real W"
    by (simp add: algebra_simps)
  then have lo: "real n - 1 < real W / real step"
    by (rule iffD2 [OF pos_less_divide_eq, rotated]) (use assms in simp)
  show ?thesis
    unfolding n_def [symmetric] using lo up by (intro ceiling_unique) simp_all
qed

lemma chunk_count_0: "0 < step \<Longrightarrow> int (chunk_count W 0 step) = \<lceil>real W / real step\<rceil>"
  by (simp add: chunk_count_def ceiling_div_nat)

lemma chunk_text_windows:
  assumes "0 < cs" and "0 < step"
  shows "chunk_text doc src (int cs) (int cs - int step) =
         Some (map (\<lambda>k. mk_chunk (str_split doc) src cs (k * step))
                   [0..<chunk_count (length (str_split doc)) 0 step])"
  using chunk_loop_windows [OF str_split_clean assms, of doc src 0 "[]"]
  by (simp add: chunk_text_def)

lemma chunk_words_mk_chunk:
  "clean_words ws \<Longrightarrow> chunk_words (mk_chunk ws src cs p) = take cs (drop p ws)"
  by (simp add: chunk_words_def mk_chunk_def str_split_join clean_words_take_drop)

lemma str_split_replicate_a:
  "str_split (concat (replicate n ''a '')) = replicate n ''a''"
  by (induction n) (simp_all add: str_split_def is_space_def)

subsection \<open>Window count, window size and overlap\<close>

text \<open>
  C1 (amended). For every text of \<open>W\<close> whitespace-separated words, \<open>chunk_text\<close> with
  \<open>chunk_size = 600\<close> and \<open>overlap = 100\<close> returns, and it returns exactly
  \<open>ceil(W / (chunk_size - overlap))\<close> chunks. Chunk \<open>k\<close> carries the source name and holds the
  words \<open>500 k, \<dots>, 500 k + 599\<close> of the text (as many as exist): it is never empty and
  never exceeds 600 words. Every pair of consecutive chunks other than the last pair shares
  exactly 100 words: the first chunk of the pair is full and its last 100 words are the
  first 100 words of the next chunk.
\<close>

theorem chunk_text_default_windows:
  "\<exists>chunks. chunk_text doc src 600 100 = Some chunks
     \<and> int (length chunks) = \<lceil>real (length (str_split doc)) / real_of_int (600 - 100)\<rceil>
     \<and> (\<forall>k<length chunks.
            csource (chunks ! k) = src
          \<and> chunk_words (chunks ! k) = take 600 (drop (500 * k) (str_split doc))
          \<and> chunk_words (chunks ! k) \<noteq> []
          \<and> length (chunk_words (chunks ! k)) \<le> 600)
     \<and> (\<forall>k. k + 2 < length chunks \<longrightarrow>
            length (chunk_words (chunks ! k)) = 600
          \<and> drop 500 (chunk_words (chunks ! k)) = take 100 (chunk_words (chunks ! Suc k))
          \<and> length (drop 500 (chunk_words (chunks ! k))) = 100)"
proof -
  let ?ws = "str_split doc"
  define n where "n = chunk_count (length ?ws) 0 500"
  define chunks where "chunks = map (\<lambda>k. mk_chunk ?ws src 600 (k * 500)) [0..<n]"
  have cl: "clean_words ?ws"
    by (rule str_split_clean)
  have run: "chunk_text doc src 600 100 = Some chunks"
    using chunk_text_windows [of 600 500 doc src] by (simp add: chunks_def n_def)
  have len: "length chunks = n"
    by (simp add: chunks_def)
  have cnt: "int (length chunks) = \<lceil>real (length ?ws) / real_of_int (600 - 100)\<rceil>"
    using chunk_count_0 [of 500 "length ?ws"] by (simp add: len n_def)
  have nth: "chunks ! k = mk_chunk ?ws src 600 (k * 500)" if "k < n" for k
    using that by (simp add: chunks_def)
  have wk: "chunk_words (chunks ! k) = take 600 (drop (500 * k) ?ws)" if "k < n" for k
    using that cl by (simp add: nth chunk_words_mk_chunk mult.commute)
  have bound: "500 * k < length ?ws" if "k < n" for k
  proof -
    have "Suc k \<le> (length ?ws + 499) div 500"
      using that by (simp add: n_def chunk_count_def)
    then have "Suc k * 500 \<le> length ?ws + 499"
      by (simp only: less_eq_div_iff_mult_less_eq zero_less_numeral)
    then show ?thesis by simp
  qed
  have each: "\<forall>k<length chunks. csource (chunks ! k) = src
          \<and> chunk_words (chunks ! k) = take 600 (drop (500 * k) ?ws)
          \<and> chunk_words (chunks ! k) \<noteq> []
          \<and> length (chunk_words (chunks ! k)) \<le> 600"
  proof (intro allI impI)
    fix k assume "k < length chunks"
    then have k: "k < n" by (simp add: len)
    have "csource (chunks ! k) = src"
      by (simp add: nth [OF k] mk_chunk_def)
    moreover have "take 600 (drop (500 * k) ?ws) \<noteq> []"
      using bound [OF k] by simp
    ultimately show "csource (chunks ! k) = src
          \<and> chunk_words (chunks ! k) = take 600 (drop (500 * k) ?ws)
          \<and> chunk_words (chunks ! k) \<noteq> []
          \<and> length (chunk_words (chunks ! k)) \<le> 600"
      by (simp add: wk [OF k])
  qed
  have pair: "\<forall>k. k + 2 < length chunks \<longrightarrow>
            length (chunk_words (chunks ! k)) = 600
          \<and> drop 500 (chunk_words (chunks ! k)) = take 100 (chunk_words (chunks ! Suc k))
          \<and> length (drop 500 (chunk_words (chunks ! k))) = 100"
  proof (intro allI impI)
    fix k assume "k + 2 < length chunks"
    then have k2: "k + 2 < n" by (simp add: len)
    have "500 * (k + 2) < length ?ws"
      using k2 by (rule bound)
    then have full: "500 * k + 1000 < length ?ws"
      by simp
    have "k < n" and "Suc k < n"
      using k2 by simp_all
    then have a: "chunk_words (chunks ! k) = take 600 (drop (500 * k) ?ws)"
      and b: "chunk_words (chunks ! Suc k) = take 600 (drop (500 * k + 500) ?ws)"
      by (simp_all add: wk add.commute)
    show "length (chunk_words (chunks ! k)) = 600
          \<and> drop 500 (chunk_words (chunks ! k)) = take 100 (chunk_words (chunks ! Suc k))
          \<and> length (drop 500 (chunk_words (chunks ! k))) = 100"
      unfolding a b using full by (simp add: drop_take add.commute)
  qed
  show ?thesis
    by (rule exI [of _ chunks]) (intro conjI run cnt each pair)
qed

text \<open>
  The theorem at a text of 1001 words: three chunks, the first one full, the last one a
  single word, and the first pair sharing 100 words.
\<close>

theorem chunk_text_default_windows_witness:
  "\<exists>chunks. chunk_text (concat (replicate 1001 ''a '')) ''policy.pdf'' 600 100 = Some chunks
     \<and> length chunks = 3
     \<and> (0::nat) + 2 < length chunks
     \<and> chunk_words (chunks ! 0) = replicate 600 ''a''
     \<and> chunk_words (chunks ! 2) = [''a'']
     \<and> drop 500 (chunk_words (chunks ! 0)) = take 100 (chunk_words (chunks ! Suc 0))"
proof -
  have "\<exists>chunks. chunk_text (concat (replicate 1001 ''a '')) ''policy.pdf'' 600 100 = Some chunks
     \<and> int (length chunks) = \<lceil>real (length (replicate 1001 ''a'')) / real_of_int (600 - 100)\<rceil>
     \<and> (\<forall>k<length chunks. csource (chunks ! k) = ''policy.pdf''
          \<and> chunk_words (chunks ! k) = take 600 (drop (500 * k) (replicate 1001 ''a''))
          \<and> chunk_words (chunks ! k) \<noteq> []
          \<and> length (chunk_words (chunks ! k)) \<le> 600)
     \<and> (\<forall>k. k + 2 < length chunks \<longrightarrow>
            length (chunk_words (chunks ! k)) = 600
          \<and> drop 500 (chunk_words (chunks ! k)) = take 100 (chunk_words (chunks ! Suc k))
          \<and> length (drop 500 (chunk_words (chunks ! k))) = 100)"
    using chunk_text_default_windows [of "concat (replicate 1001 ''a '')" "''policy.pdf''"]
    unfolding str_split_replicate_a .
  then obtain chunks where
    run: "chunk_text (concat (replicate 1001 ''a '')) ''policy.pdf'' 600 100 = Some chunks"
    and cnt: "int (length chunks) = \<lceil>real (length (replicate 1001 ''a'')) / real_of_int (600 - 100)\<rceil>"
    and each: "\<forall>k<length chunks. csource (chunks ! k) = ''policy.pdf''
          \<and> chunk_words (chunks ! k) = take 600 (drop (500 * k) (replicate 1001 ''a''))
          \<and> chunk_words (chunks ! k) \<noteq> []
          \<and> length (chunk_words (chunks ! k)) \<le> 600"
    and pair: "\<forall>k. k + 2 < length chunks \<longrightarrow>
            length (chunk_words (chunks ! k)) = 600
          \<and> drop 500 (chunk_words (chunks ! k)) = take 100 (chunk_words (chunks ! Suc k))
          \<and> length (drop 500 (chunk_words (chunks ! k))) = 100"
    by (elim exE conjE)
  have "\<lceil>real (length (replicate 1001 ''a'')) / real_of_int (600 - 100)\<rceil> = 3"
    by simp
  with cnt have len: "length chunks = 3"
    by simp
  have "chunk_words (chunks ! 0) = take 600 (drop (500 * 0) (replicate 1001 ''a''))"
    using each len by simp
  then have w0: "chunk_words (chunks ! 0) = replicate 600 ''a''"
    by simp
  have "chunk_words (chunks ! 2) = take 600 (drop (500 * 2) (replicate 1001 ''a''))"
    using each len by simp
  then have w2: "chunk_words (chunks ! 2) = [''a'']"
    by simp
  have "drop 500 (chunk_words (chunks ! 0)) = take 100 (chunk_words (chunks ! Suc 0))"
    using pair len by simp
  with run len w0 w2 show ?thesis
    by simp
qed

text \<open>
  C1 as worded fails on the count. A text of one word gives one chunk, where
  \<open>ceil(max(W - overlap, 0) / (chunk_size - overlap))\<close> is zero: the loop starts a window at
  every multiple of the step below \<open>W\<close>, also when fewer than \<open>overlap\<close> words remain.
\<close>

theorem chunk_text_count_counterexample:
  "chunk_text ''a'' ''policy.pdf'' 600 100 = Some [\<lparr>ctext = ''a'', csource = ''policy.pdf''\<rparr>]
   \<and> spec_chunk_count (int (length (str_split ''a''))) 600 100 = 0"
  by (simp add: chunk_text_def str_split_def is_space_def chunk_loop.simps py_slice_def
      slice_bound_def strip_def spec_chunk_count_def)

subsection \<open>Termination\<close>

text \<open>
  C4 (amended). \<open>chunk_text\<close> returns for every text and source whenever
  \<open>overlap < chunk_size\<close>. No configuration is rejected or clamped: with
  \<open>overlap \<ge> chunk_size\<close> the call returns only for a text without words, and on a text
  with at least one word it never leaves the loop. On a text without words the result is
  the empty list.
\<close>

theorem chunk_text_returns_iff:
  "((\<exists>chunks. chunk_text doc src chunk_size overlap = Some chunks)
      \<longleftrightarrow> (overlap < chunk_size \<or> str_split doc = []))
   \<and> (str_split doc = [] \<longrightarrow> chunk_text doc src chunk_size overlap = Some [])"
proof -
  have blank: "chunk_text doc src chunk_size overlap = Some []" if "str_split doc = []"
    using that unfolding chunk_text_def by (subst chunk_loop.simps) simp
  have "(\<exists>chunks. chunk_text doc src chunk_size overlap = Some chunks)
      \<longleftrightarrow> (overlap < chunk_size \<or> str_split doc = [])"
  proof (cases "overlap < chunk_size")
    case True
    then show ?thesis
      using chunk_loop_terminates [of overlap chunk_size "str_split doc" src 0 "[]"]
      by (simp add: chunk_text_def)
  next
    case False
    show ?thesis
    proof (cases "str_split doc = []")
      case True
      with blank show ?thesis by simp
    next
      case nonempty: False
      then have "chunk_text doc src chunk_size overlap = None"
        using False unfolding chunk_text_def by (intro chunk_loop_diverges) simp_all
      with False nonempty show ?thesis by simp
    qed
  qed
  with blank show ?thesis
    by simp
qed

text \<open>
  The three cases of the theorem: a positive step, a zero step on a text with words, and a
  zero step on a blank text.
\<close>

theorem chunk_text_returns_iff_witness:
  "(\<exists>chunks. chunk_text ''a b c d e'' ''policy.pdf'' 3 1 = Some chunks)
   \<and> \<not> (\<exists>chunks. chunk_text ''a b c d e'' ''policy.pdf'' 3 3 = Some chunks)
   \<and> (\<exists>chunks. chunk_text ''  '' ''policy.pdf'' 3 3 = Some chunks)
   \<and> str_split ''  '' = []
   \<and> chunk_text ''  '' ''policy.pdf'' 3 3 = Some []"
  using chunk_text_returns_iff [of "''a b c d e''" "''policy.pdf''" 3 1]
    chunk_text_returns_iff [of "''a b c d e''" "''policy.pdf''" 3 3]
    chunk_text_returns_iff [of "''  ''" "''policy.pdf''" 3 3]
  by (simp add: str_split_def is_space_def)

text \<open>
  C4 as worded fails: with \<open>chunk_size = overlap = 100\<close> the step is zero and the call on a
  one-word text does not return; nothing rejects or clamps the configuration.
\<close>

theorem chunk_text_no_guard_counterexample:
  "chunk_text ''a'' ''policy.pdf'' 100 100 = None"
  unfolding chunk_text_def
  by (rule chunk_loop_diverges) (simp_all add: str_split_def is_space_def)

section \<open>Properties of the vector index store\<close>

text \<open>
  C10. \<open>build_index\<close> on an empty chunk sequence raises: stacking zero embedding vectors
  is a \<open>ValueError\<close>. The error comes before either artifact is written, so the map of
  persisted files is the one before the call, for this user and for every other one (only
  the user's directory may have been created).
\<close>

theorem build_index_empty_raises:
  "\<exists>fs'. build_index e fs [] user_id = (Inl ValueError, fs') \<and> files fs' = files fs"
  by (simp add: build_index_def get_user_paths_def makedirs_def np_stack_def Let_def)

text \<open>
  The theorem at a store that already holds an index file for user 1: the file is still
  there after the failed build, and no chunk file has appeared.
\<close>

theorem build_index_empty_raises_witness:
  "\<exists>fs'. build_index offline_env
           \<lparr>dirs = {}, files = [''faiss_store/user_1/store.index'' \<mapsto> IndexFile empty_index]\<rparr> [] 1
         = (Inl ValueError, fs')
       \<and> files fs' ''faiss_store/user_1/store.index'' = Some (IndexFile empty_index)
       \<and> files fs' ''faiss_store/user_1/chunks.pkl'' = None"
  using build_index_empty_raises [of offline_env
      "\<lparr>dirs = {}, files = [''faiss_store/user_1/store.index'' \<mapsto> IndexFile empty_index]\<rparr>" 1]
  by auto

section \<open>Evaluating the float roundings\<close>

lemma float_round_eval:
  assumes "2 powr of_int e \<le> \<bar>x\<bar>" and "\<bar>x\<bar> < 2 powr (of_int e + 1)" and "emin \<le> e"
  shows "float_round p emin x =
           of_int (round_half_even (x / 2 powr (of_int e - of_nat p + 1)))
             * 2 powr (of_int e - of_nat p + 1)"
proof -
  have pos: "0 < \<bar>x\<bar>"
    using assms(1) by (smt (verit) powr_gt_zero)
  then have "\<lfloor>log 2 \<bar>x\<bar>\<rfloor> = e"
    using assms(1,2) by (simp add: floor_log_eq_powr_iff)
  with pos assms(3) show ?thesis
    by (simp add: float_round_def Let_def max_absorb1)
qed

lemma float32_of_seven_twentieths: "float32_of (7 / 20) = 11744051 / 33554432"
  unfolding float32_of_def
  by (subst float_round_eval [of "- 2"])
    (simp_all add: round_half_even_def powr_neg_numeral Let_def)

lemma float32_of_default: "float32_of DEFAULT_THRESHOLD = 11744051 / 33554432"
  using float32_of_seven_twentieths by (simp add: DEFAULT_THRESHOLD_def)

lemma float32_of_low:
  "float32_of (- 400000000000000000000000000000000000000)
     = - 399999987211427698602625043076692836352"
  unfolding float32_of_def
  by (subst float_round_eval [of 128])
    (simp_all add: round_half_even_def powr_neg_numeral Let_def)

lemma float64_of_zero [simp]: "float64_of 0 = 0"
  by (simp add: float64_of_def float_round_def)










section \<open>Properties of the retriever\<close>

text \<open>
  C3 fails on the code. The loop of \<open>retrieve\<close> tests \<open>idx < len(chunks)\<close> only, so a
  negative position passes the range test and \<open>chunks[idx]\<close> counts from the end. An index
  of two vectors asked for three neighbours pads its answer with position \<open>-1\<close> at score
  \<open>-FLT_MAX\<close>; with a threshold below that score the padded hit is returned as a third
  result, read from the last chunk.
\<close>

theorem retrieve_negative_position_used:
  "retrieve padded_env ''How is data encrypted?'' \<lparr>index_d = 1, vectors = [[1], [0]]\<rparr>
       two_chunks 3 (- 4 * 10 ^ 38) =
     (Inr [\<lparr>rtext = ''Data is encrypted with AES-256'', rsource = ''policy.pdf'', score = 9 / 10\<rparr>,
           \<lparr>rtext = ''Backups run nightly'', rsource = ''ops.pdf'', score = 1 / 2\<rparr>,
           \<lparr>rtext = ''Data is encrypted with AES-256'', rsource = ''policy.pdf'',
            score = - 340282346638528859811704183484516925440\<rparr>],
      [IndexSearch 3])"
  by (simp add: retrieve_def padded_env_def two_chunks_def get_embedding_def py_index_def
      np_ge_def float32_of_low Let_def)

text \<open>
  C5 fails on the code. The test \<open>score >= threshold\<close> is made on the threshold as NumPy
  converts it, and the score is returned as \<open>float(score)\<close>. Under NumPy 2 the threshold 0.35
  is rounded to single precision, 0.3499999940395355, so a hit whose score is exactly that
  value passes the test and is returned with a score below 0.35. The search result is in
  descending order and has \<open>top_k\<close> entries.
\<close>

theorem retrieve_score_below_threshold:
  "retrieve boundary_env ''How is data encrypted?'' \<lparr>index_d = 1, vectors = [[1]]\<rparr>
       two_chunks 3 (35 / 100) =
     (Inr [\<lparr>rtext = ''Backups run nightly'', rsource = ''ops.pdf'',
            score = 11744051 / 33554432\<rparr>],
      [IndexSearch 3])
   \<and> (11744051 / 33554432 :: real) < 35 / 100
   \<and> np_promote boundary_env (35 / 100) = 11744051 / 33554432
   \<and> sorted_wrt (\<ge>) (fst (faiss_search boundary_env \<lparr>index_d = 1, vectors = [[1]]\<rparr>
         (get_embedding boundary_env ''How is data encrypted?'') 3))
   \<and> length (fst (faiss_search boundary_env \<lparr>index_d = 1, vectors = [[1]]\<rparr>
         (get_embedding boundary_env ''How is data encrypted?'') 3)) = 3"
  by (simp add: retrieve_def boundary_env_def two_chunks_def get_embedding_def py_index_def
      np_ge_def float32_of_seven_twentieths Let_def)

text \<open>
  What holds of every call: if the search returns at most \<open>top_k\<close> hits in descending order
  of score, the results are at most \<open>top_k\<close>, in descending order of score, and each score
  is at least the threshold as NumPy converts it for the comparison.
\<close>

lemma retrieve_loop_scores:
  "retrieve_loop e chunks threshold hits acc = Inr results \<Longrightarrow>
     map score results =
       map score acc @
       map fst (filter (\<lambda>(s, idx). np_ge e s threshold \<and> idx < int (length chunks)) hits)"
proof (induction hits arbitrary: acc)
  case Nil
  then show ?case by simp
next
  case (Cons h hits)
  obtain s idx where h: "h = (s, idx)"
    by (cases h)
  show ?case
  proof (cases "np_ge e s threshold \<and> idx < int (length chunks)")
    case False
    with Cons h show ?thesis by auto
  next
    case True
    with Cons.prems h obtain c where c: "py_index chunks idx = Inr c"
      and run: "retrieve_loop e chunks threshold hits
                  (acc @ [\<lparr>rtext = ctext c, rsource = csource c, score = s\<rparr>]) = Inr results"
      by (auto split: sum.splits)
    from Cons.IH [OF run] True h show ?thesis by simp
  qed
qed

lemma retrieve_results_bounds:
  assumes "faiss_search e index (get_embedding e q) top_k = (scores, indices)"
    and "int (length scores) \<le> top_k"
    and "sorted_wrt (\<ge>) scores"
    and "fst (retrieve e q index chunks top_k threshold) = Inr results"
  shows "int (length results) \<le> top_k
       \<and> (\<forall>r\<in>set results. np_promote e threshold \<le> score r)
       \<and> sorted_wrt (\<ge>) (map score results)"
proof -
  let ?P = "\<lambda>(s, idx). np_ge e s threshold \<and> idx < int (length chunks)"
  let ?hits = "zip scores indices"
  have "retrieve_loop e chunks threshold ?hits [] = Inr results"
    using assms(1,4) by (simp add: retrieve_def Let_def)
  then have sc: "map score results = map fst (filter ?P ?hits)"
    using retrieve_loop_scores [of e chunks threshold ?hits "[]" results] by simp
  have "length results = length (map score results)"
    by simp
  also have "\<dots> = length (filter ?P ?hits)"
    unfolding sc by (rule length_map)
  also have "\<dots> \<le> length ?hits"
    by (rule length_filter_le)
  also have "\<dots> \<le> length scores"
    by simp
  finally have len: "int (length results) \<le> top_k"
    using assms(2) by simp
  have "\<forall>x\<in>set (map score results). np_promote e threshold \<le> x"
    unfolding sc by (auto simp: np_ge_def)
  then have thr: "\<forall>r\<in>set results. np_promote e threshold \<le> score r"
    by simp
  have "sorted_wrt (\<ge>) (map fst ?hits)"
    using assms(3) by (simp add: map_fst_zip_take sorted_wrt_take)
  then have "sorted_wrt (\<lambda>a b. fst a \<ge> fst b) ?hits"
    by (simp add: sorted_wrt_map)
  then have "sorted_wrt (\<lambda>a b. fst a \<ge> fst b) (filter ?P ?hits)"
    by (rule sorted_wrt_filter)
  then have srt: "sorted_wrt (\<ge>) (map score results)"
    unfolding sc by (simp add: sorted_wrt_map)
  from len thr srt show ?thesis by blast
qed

lemma retrieve_loop_returns:
  "list_all (\<lambda>(s, idx). np_ge e s threshold \<longrightarrow> 0 \<le> idx) hits \<Longrightarrow>
     \<exists>results. retrieve_loop e chunks threshold hits acc = Inr results"
proof (induction hits arbitrary: acc)
  case Nil
  show ?case by simp
next
  case (Cons h hits)
  obtain s idx where h: "h = (s, idx)"
    by (cases h)
  have IH: "\<exists>results. retrieve_loop e chunks threshold hits acc' = Inr results" for acc'
    using Cons.prems by (intro Cons.IH) simp
  show ?case
  proof (cases "np_ge e s threshold \<and> idx < int (length chunks)")
    case False
    then show ?thesis
      using IH [of acc] h by auto
  next
    case True
    then have "0 \<le> idx"
      using Cons.prems h by simp
    with True obtain c where "py_index chunks idx = Inr c"
      by (simp add: py_index_def Let_def)
    with True h show ?thesis
      using IH by simp
  qed
qed

lemma retrieve_returns:
  assumes "hits_valid e index threshold"
  shows "\<exists>results. retrieve e q index chunks top_k threshold = (Inr results, [IndexSearch top_k])"
proof -
  have "list_all (\<lambda>(s, idx). np_ge e s threshold \<longrightarrow> 0 \<le> idx)
          (zip (fst (faiss_search e index (get_embedding e q) top_k))
               (snd (faiss_search e index (get_embedding e q) top_k)))"
    using assms unfolding hits_valid_def by blast
  from retrieve_loop_returns [OF this, of chunks "[]"] show ?thesis
    by (simp add: retrieve_def Let_def case_prod_beta)
qed

section \<open>Properties of the synthesizer\<close>

subsection \<open>Rounding and deduplication\<close>

lemma py_round2_grid: "\<exists>k::int. py_round2 x = of_int k / 100"
  unfolding py_round2_def Let_def by blast

lemma py_round2_close: "\<bar>py_round2 x - x\<bar> \<le> 1 / 200"
proof -
  define y where "y = x * 100"
  define f where "f = \<lfloor>y\<rfloor>"
  define r where "r = y - of_int f"
  define k where "k = (if r < 1 / 2 then f else if 1 / 2 < r then f + 1
                 else if even f then f else f + 1)"
  have r: "0 \<le> r" "r < 1"
    unfolding r_def f_def by linarith+
  have y: "y = of_int f + r"
    unfolding r_def by simp
  have p: "py_round2 x = of_int k / 100"
    unfolding py_round2_def Let_def k_def r_def f_def y_def by simp
  have "k = f \<and> r \<le> 1 / 2 \<or> k = f + 1 \<and> 1 / 2 \<le> r"
    unfolding k_def by auto
  then have "\<bar>of_int k - y\<bar> \<le> 1 / 2"
    unfolding y using r by auto
  moreover have "py_round2 x - x = (of_int k - y) / 100"
    unfolding p y_def by simp
  ultimately have "\<bar>py_round2 x - x\<bar> = \<bar>of_int k - y\<bar> / 100"
    and "\<bar>of_int k - y\<bar> / 100 \<le> (1 / 2) / 100"
    by (simp_all only: abs_divide abs_numeral divide_right_mono zero_le_numeral)
  then show ?thesis
    by simp
qed

lemma py_round2_zero [simp]: "py_round2 0 = 0"
  by (simp add: py_round2_def)

lemma first_occurrences_cong:
  "set seen = set seen' \<Longrightarrow> first_occurrences seen xs = first_occurrences seen' xs"
proof (induction xs arbitrary: seen seen')
  case Nil
  show ?case by simp
next
  case (Cons x xs)
  have "first_occurrences seen xs = first_occurrences seen' xs"
    and "first_occurrences (x # seen) xs = first_occurrences (x # seen') xs"
    using Cons.prems by (auto intro: Cons.IH)
  with Cons.prems show ?case by simp
qed

lemma dict_keys_setitem:
  "dict_keys (dict_setitem dict k v) =
     (if k \<in> set (dict_keys dict) then dict_keys dict else dict_keys dict @ [k])"
proof -
  have "map fst (map (\<lambda>(k', v'). if k' = k then (k', v) else (k', v')) dict) = map fst dict"
    by (induction dict) auto
  then show ?thesis
    by (simp add: dict_keys_def dict_setitem_def)
qed

lemma dict_keys_fold:
  "dict_keys (fold (\<lambda>k dict. dict_setitem dict k v) ks dict) =
     dict_keys dict @ first_occurrences (dict_keys dict) ks"
proof (induction ks arbitrary: dict)
  case Nil
  show ?case by simp
next
  case (Cons k ks)
  show ?case
  proof (cases "k \<in> set (dict_keys dict)")
    case True
    then show ?thesis
      by (simp add: Cons.IH dict_keys_setitem)
  next
    case False
    have "first_occurrences (dict_keys dict @ [k]) ks = first_occurrences (k # dict_keys dict) ks"
      by (rule first_occurrences_cong) simp
    with False show ?thesis
      by (simp add: Cons.IH dict_keys_setitem)
  qed
qed

lemma dict_keys_fromkeys: "dict_keys (dict_fromkeys ks) = first_occurrences [] ks"
  using dict_keys_fold [of "()" ks "[]"] by (simp add: dict_fromkeys_def dict_keys_def)

lemma first_occurrences_set: "set (first_occurrences seen xs) = set xs - set seen"
  by (induction xs arbitrary: seen) auto

lemma first_occurrences_distinct: "distinct (first_occurrences seen xs)"
  by (induction xs arbitrary: seen) (auto simp: first_occurrences_set)

subsection \<open>The degraded paths\<close>

text \<open>
  C7. If neither probe succeeds (no cloud credential, and the local service does not
  answer its reachability check with status 200), \<open>generate_answer\<close> returns the
  Unavailable record: the fixed text, citation \<open>N/A\<close>, confidence 0. The only event of the
  call is the reachability check itself: no index search and no request to a generation
  backend.
\<close>

theorem generate_answer_unavailable:
  assumes "\<not> check_groq_available e" and "\<not> fst (check_ollama_available e)"
  shows "generate_answer e q index chunks =
           (Inr \<lparr>answer = ''No LLM available. Please configure GROQ_API_KEY or start Ollama.'',
                 citation = ''N/A'', confidence = 0, snippet = []\<rparr>,
            [HttpGet (OLLAMA_HOST @ ''/api/tags'')])"
  using assms
  by (simp add: generate_answer_def check_ollama_available_def Let_def split: prod.splits)

text \<open>
  The theorem at the environment without providers.
\<close>

theorem generate_answer_unavailable_witness:
  "\<not> check_groq_available offline_env \<and> \<not> fst (check_ollama_available offline_env)
   \<and> generate_answer offline_env ''Is data encrypted at rest?'' empty_index [] =
           (Inr \<lparr>answer = ''No LLM available. Please configure GROQ_API_KEY or start Ollama.'',
                 citation = ''N/A'', confidence = 0, snippet = []\<rparr>,
            [HttpGet ''http://localhost:11434/api/tags''])"
proof -
  have g: "\<not> check_groq_available offline_env"
    by (simp add: check_groq_available_def offline_env_def)
  have o: "\<not> fst (check_ollama_available offline_env)"
    by (simp add: check_ollama_available_def offline_env_def)
  show ?thesis
    using g o generate_answer_unavailable [OF g o, of "''Is data encrypted at rest?''" empty_index "[]"]
    by (simp add: OLLAMA_HOST_def)
qed

text \<open>
  C2 (amended). If at least one provider is available and retrieval yields zero results,
  \<open>generate_answer\<close> returns the record with the text \<open>Not found in references.\<close>,
  citation \<open>N/A\<close> and confidence 0, whichever provider it is, and no request goes to a
  generation backend.
\<close>

theorem generate_answer_not_found:
  assumes "check_groq_available e \<or> fst (check_ollama_available e)"
    and "fst (retrieve e q index chunks DEFAULT_TOP_K DEFAULT_THRESHOLD) = Inr []"
  shows "generate_answer e q index chunks =
           (Inr \<lparr>answer = ''Not found in references.'', citation = ''N/A'', confidence = 0,
                 snippet = []\<rparr>,
            [HttpGet (OLLAMA_HOST @ ''/api/tags''), IndexSearch DEFAULT_TOP_K])"
proof -
  have ev: "snd (retrieve e q index chunks DEFAULT_TOP_K DEFAULT_THRESHOLD) = [IndexSearch DEFAULT_TOP_K]"
    by (simp add: retrieve_def Let_def split: prod.splits)
  with assms(2) have r: "retrieve e q index chunks DEFAULT_TOP_K DEFAULT_THRESHOLD = (Inr [], [IndexSearch DEFAULT_TOP_K])"
    by (simp add: prod_eq_iff)
  show ?thesis
    using assms(1)
    by (auto simp: generate_answer_def r check_ollama_available_def Let_def
        NO_CONTEXT_RESPONSE_def split: prod.splits)
qed

text \<open>
  The theorem at an environment with a cloud credential whose index returns no hit.
\<close>

theorem generate_answer_not_found_witness:
  "(check_groq_available silent_env \<or> fst (check_ollama_available silent_env))
   \<and> fst (retrieve silent_env ''Is data encrypted at rest?'' empty_index two_chunks
            DEFAULT_TOP_K DEFAULT_THRESHOLD) = Inr []
   \<and> generate_answer silent_env ''Is data encrypted at rest?'' empty_index two_chunks =
           (Inr \<lparr>answer = ''Not found in references.'', citation = ''N/A'', confidence = 0,
                 snippet = []\<rparr>,
            [HttpGet ''http://localhost:11434/api/tags'', IndexSearch 3])"
proof -
  have av: "check_groq_available silent_env \<or> fst (check_ollama_available silent_env)"
    by (simp add: check_groq_available_def silent_env_def)
  have r: "fst (retrieve silent_env ''Is data encrypted at rest?'' empty_index two_chunks
            DEFAULT_TOP_K DEFAULT_THRESHOLD) = Inr []"
    by (simp add: retrieve_def silent_env_def Let_def)
  show ?thesis
    using av r generate_answer_not_found [OF av r]
    by (simp add: OLLAMA_HOST_def DEFAULT_TOP_K_def)
qed

text \<open>
  C2 as worded fails: it does depend on the providers. With no provider available and a
  retrieval that would yield zero results, the answer is the Unavailable text, which is not
  the canonical sentinel.
\<close>

theorem generate_answer_not_found_counterexample:
  "fst (retrieve offline_env ''Is data encrypted at rest?'' empty_index [] DEFAULT_TOP_K DEFAULT_THRESHOLD) = Inr []
   \<and> fst (generate_answer offline_env ''Is data encrypted at rest?'' empty_index []) =
       Inr \<lparr>answer = ''No LLM available. Please configure GROQ_API_KEY or start Ollama.'',
            citation = ''N/A'', confidence = 0, snippet = []\<rparr>
   \<and> ''No LLM available. Please configure GROQ_API_KEY or start Ollama.'' \<noteq> NO_CONTEXT_RESPONSE"
  by (simp add: retrieve_def generate_answer_def check_groq_available_def
      check_ollama_available_def offline_env_def Let_def NO_CONTEXT_RESPONSE_def)

lemma generate_answer_generated:
  assumes "check_groq_available e \<or> fst (check_ollama_available e)"
    and "fst (retrieve e q index chunks DEFAULT_TOP_K DEFAULT_THRESHOLD) = Inr (r0 # rs)"
    and "generate e (check_groq_available e) (build_prompt (build_context (r0 # rs)) q) = (res, ev3)"
  shows "fst (generate_answer e q index chunks) =
           (case res of
              Inl msg \<Rightarrow>
                Inr \<lparr>answer = ''Error generating answer: '' @ msg, citation = ''N/A'',
                     confidence = 0, snippet = []\<rparr>
            | Inr generated \<Rightarrow>
                Inr \<lparr>answer = generated,
                     citation = join '', '' (dict_keys (dict_fromkeys (map rsource (r0 # rs)))),
                     confidence = py_round2 (sum_list (map score (r0 # rs)) / real (length (r0 # rs))),
                     snippet = (if rtext r0 \<noteq> [] then take 300 (rtext r0) @ ''...'' else [])\<rparr>)"
proof -
  obtain ev2 where r: "retrieve e q index chunks DEFAULT_TOP_K DEFAULT_THRESHOLD = (Inr (r0 # rs), ev2)"
    using assms(2) by (cases "retrieve e q index chunks DEFAULT_TOP_K DEFAULT_THRESHOLD") simp
  obtain b ev1 where o: "check_ollama_available e = (b, ev1)"
    by (cases "check_ollama_available e")
  have avail: "\<not> (\<not> check_groq_available e \<and> \<not> b)"
    using assms(1) o by simp
  then have guard: "(\<not> check_groq_available e \<and> \<not> b) = False"
    by simp
  show ?thesis
    unfolding generate_answer_def Let_def o r
    by (simp add: guard assms(3) split: sum.splits)
qed

subsection \<open>A generated answer\<close>

text \<open>
  C6 (amended). Whenever generation succeeds on a non-empty retrieval, the record holds the
  generated text; its confidence is the mean of the retrieved scores rounded to two decimal
  places (a multiple of 0.01 within 0.005 of the mean); its citation is the list of the
  retrieved sources, deduplicated in order of first occurrence and joined with a comma and
  a space; its snippet is the first 300 characters of the top-ranked text followed by an
  ellipsis when that text is not empty, and the empty string when it is empty.
\<close>

theorem generate_answer_success:
  assumes "check_groq_available e \<or> fst (check_ollama_available e)"
    and "fst (retrieve e q index chunks DEFAULT_TOP_K DEFAULT_THRESHOLD) = Inr retrieved"
    and "retrieved \<noteq> []"
    and "fst (generate e (check_groq_available e) (build_prompt (build_context retrieved) q))
           = Inr generated"
  shows "\<exists>a. fst (generate_answer e q index chunks) = Inr a
      \<and> answer a = generated
      \<and> confidence a = py_round2 (sum_list (map score retrieved) / real (length retrieved))
      \<and> (\<exists>k::int. confidence a = of_int k / 100)
      \<and> \<bar>confidence a - sum_list (map score retrieved) / real (length retrieved)\<bar> \<le> 1 / 200
      \<and> citation a = join '', '' (first_occurrences [] (map rsource retrieved))
      \<and> snippet a = (if rtext (hd retrieved) = [] then []
                       else take 300 (rtext (hd retrieved)) @ ''...'')"
proof -
  obtain r0 rs where rt: "retrieved = r0 # rs"
    using assms(3) by (cases retrieved) auto
  obtain ev3 where g: "generate e (check_groq_available e) (build_prompt (build_context (r0 # rs)) q)
      = (Inr generated, ev3)"
    using assms(4) unfolding rt
    by (cases "generate e (check_groq_available e) (build_prompt (build_context (r0 # rs)) q)") simp
  let ?a = "\<lparr>answer = generated,
             citation = join '', '' (dict_keys (dict_fromkeys (map rsource (r0 # rs)))),
             confidence = py_round2 (sum_list (map score (r0 # rs)) / real (length (r0 # rs))),
             snippet = (if rtext r0 \<noteq> [] then take 300 (rtext r0) @ ''...'' else [])\<rparr>"
  have run: "fst (generate_answer e q index chunks) = Inr ?a"
    using generate_answer_generated [OF assms(1) assms(2) [unfolded rt] g] by simp
  have "answer ?a = generated"
    and "confidence ?a = py_round2 (sum_list (map score retrieved) / real (length retrieved))"
    and "\<exists>k::int. confidence ?a = of_int k / 100"
    and "\<bar>confidence ?a - sum_list (map score retrieved) / real (length retrieved)\<bar> \<le> 1 / 200"
    and "citation ?a = join '', '' (first_occurrences [] (map rsource retrieved))"
    and "snippet ?a = (if rtext (hd retrieved) = [] then []
                       else take 300 (rtext (hd retrieved)) @ ''...'')"
    unfolding rt using py_round2_grid py_round2_close
    by (simp_all add: dict_keys_fromkeys)
  with run show ?thesis
    by blast
qed

text \<open>
  The theorem at three hits from two sources: the cited sources are deduplicated in order
  and the mean 0.6033 is rounded to 0.6.
\<close>

theorem generate_answer_success_witness:
  "check_groq_available groq_env
   \<and> fst (retrieve groq_env ''How is data encrypted?'' empty_index two_chunks
            DEFAULT_TOP_K DEFAULT_THRESHOLD)
       = Inr [\<lparr>rtext = ''Data is encrypted with AES-256'', rsource = ''policy.pdf'', score = 9 / 10\<rparr>,
              \<lparr>rtext = ''Backups run nightly'', rsource = ''ops.pdf'', score = 1 / 2\<rparr>,
              \<lparr>rtext = ''Data is encrypted with AES-256'', rsource = ''policy.pdf'', score = 41 / 100\<rparr>]
   \<and> (\<exists>a. fst (generate_answer groq_env ''How is data encrypted?'' empty_index two_chunks) = Inr a
        \<and> answer a = ''Yes.''
        \<and> confidence a = 3 / 5
        \<and> citation a = ''policy.pdf, ops.pdf''
        \<and> snippet a = ''Data is encrypted with AES-256...'')"
proof -
  let ?rs = "[\<lparr>rtext = ''Data is encrypted with AES-256'', rsource = ''policy.pdf'', score = 9 / 10\<rparr>,
              \<lparr>rtext = ''Backups run nightly'', rsource = ''ops.pdf'', score = 1 / 2\<rparr>,
              \<lparr>rtext = ''Data is encrypted with AES-256'', rsource = ''policy.pdf'', score = 41 / 100\<rparr>]"
  have g: "check_groq_available groq_env"
    by (simp add: check_groq_available_def groq_env_def)
  then have av: "check_groq_available groq_env \<or> fst (check_ollama_available groq_env)"
    by simp
  have r: "fst (retrieve groq_env ''How is data encrypted?'' empty_index two_chunks
            DEFAULT_TOP_K DEFAULT_THRESHOLD) = Inr ?rs"
    by (simp add: retrieve_def groq_env_def two_chunks_def get_embedding_def py_index_def
        np_ge_def float32_of_default Let_def)
  have ne: "?rs \<noteq> []"
    by simp
  have gen: "fst (generate groq_env (check_groq_available groq_env)
               (build_prompt (build_context ?rs) ''How is data encrypted?'')) = Inr ''Yes.''"
    unfolding generate_def generate_with_groq_def
    by (simp add: check_groq_available_def groq_env_def strip_def is_space_def)
  have m: "py_round2 (sum_list (map score ?rs) / real (length ?rs)) = 3 / 5"
    by (simp add: py_round2_def)
  have c: "join '', '' (first_occurrences [] (map rsource ?rs)) = ''policy.pdf, ops.pdf''"
    by simp
  from generate_answer_success [OF av r ne gen] obtain a where a:
    "fst (generate_answer groq_env ''How is data encrypted?'' empty_index two_chunks) = Inr a
      \<and> answer a = ''Yes.''
      \<and> confidence a = py_round2 (sum_list (map score ?rs) / real (length ?rs))
      \<and> (\<exists>k::int. confidence a = of_int k / 100)
      \<and> \<bar>confidence a - sum_list (map score ?rs) / real (length ?rs)\<bar> \<le> 1 / 200
      \<and> citation a = join '', '' (first_occurrences [] (map rsource ?rs))
      \<and> snippet a = (if rtext (hd ?rs) = [] then [] else take 300 (rtext (hd ?rs)) @ ''...'')" ..
  note a1 = a [THEN conjunct1]
    and a2 = a [THEN conjunct2, THEN conjunct1]
    and a3 = a [THEN conjunct2, THEN conjunct2, THEN conjunct1]
    and a6 = a [THEN conjunct2, THEN conjunct2, THEN conjunct2, THEN conjunct2, THEN conjunct2,
        THEN conjunct1]
    and a7 = a [THEN conjunct2, THEN conjunct2, THEN conjunct2, THEN conjunct2, THEN conjunct2,
        THEN conjunct2]
  have s: "snippet a = ''Data is encrypted with AES-256...''"
    unfolding a7 by simp
  have "fst (generate_answer groq_env ''How is data encrypted?'' empty_index two_chunks) = Inr a
        \<and> answer a = ''Yes.''
        \<and> confidence a = 3 / 5
        \<and> citation a = ''policy.pdf, ops.pdf''
        \<and> snippet a = ''Data is encrypted with AES-256...''"
    using a1 a2 a3 [unfolded m] a6 [unfolded c] s by (intro conjI)
  then have "\<exists>a. fst (generate_answer groq_env ''How is data encrypted?'' empty_index two_chunks) = Inr a
        \<and> answer a = ''Yes.''
        \<and> confidence a = 3 / 5
        \<and> citation a = ''policy.pdf, ops.pdf''
        \<and> snippet a = ''Data is encrypted with AES-256...''"
    by (rule exI [of _ a])
  with g r show ?thesis
    by (intro conjI)
qed

text \<open>
  C6 as worded fails on the snippet: for a top-ranked chunk with an empty text the snippet
  is the empty string, not the ellipsis that truncation with a trailing ellipsis gives.
\<close>

theorem generate_answer_snippet_counterexample:
  "fst (retrieve groq_env ''How is data encrypted?'' empty_index blank_chunks
            DEFAULT_TOP_K DEFAULT_THRESHOLD)
       = Inr [\<lparr>rtext = [], rsource = ''scan.pdf'', score = 9 / 10\<rparr>,
              \<lparr>rtext = [], rsource = ''scan.pdf'', score = 1 / 2\<rparr>,
              \<lparr>rtext = [], rsource = ''scan.pdf'', score = 41 / 100\<rparr>]
   \<and> fst (generate_answer groq_env ''How is data encrypted?'' empty_index blank_chunks)
       = Inr \<lparr>answer = ''Yes.'', citation = ''scan.pdf'', confidence = 3 / 5, snippet = []\<rparr>
   \<and> take 300 (rtext \<lparr>rtext = [], rsource = ''scan.pdf'', score = 9 / 10\<rparr>) @ ''...'' \<noteq> []"
proof -
  let ?rs = "[\<lparr>rtext = [], rsource = ''scan.pdf'', score = 9 / 10\<rparr>,
              \<lparr>rtext = [], rsource = ''scan.pdf'', score = 1 / 2\<rparr>,
              \<lparr>rtext = [], rsource = ''scan.pdf'', score = 41 / 100\<rparr>]"
  have g: "check_groq_available groq_env \<or> fst (check_ollama_available groq_env)"
    by (simp add: check_groq_available_def groq_env_def)
  have r: "fst (retrieve groq_env ''How is data encrypted?'' empty_index blank_chunks
            DEFAULT_TOP_K DEFAULT_THRESHOLD) = Inr ?rs"
    by (simp add: retrieve_def groq_env_def blank_chunks_def get_embedding_def py_index_def
        np_ge_def float32_of_default Let_def)
  have gen: "generate groq_env (check_groq_available groq_env)
               (build_prompt (build_context ?rs) ''How is data encrypted?'')
             = (Inr ''Yes.'', [HttpPost GROQ_URL GROQ_MODEL
                  (build_prompt (build_context ?rs) ''How is data encrypted?'')])"
    unfolding generate_def generate_with_groq_def
    by (simp add: check_groq_available_def groq_env_def strip_def is_space_def)
  have m: "py_round2 (sum_list (map score ?rs) / real (length ?rs)) = 3 / 5"
    by (simp add: py_round2_def)
  have c: "join '', '' (dict_keys (dict_fromkeys (map rsource ?rs))) = ''scan.pdf''"
    by (simp add: dict_keys_fromkeys)
  have "fst (generate_answer groq_env ''How is data encrypted?'' empty_index blank_chunks)
       = Inr \<lparr>answer = ''Yes.'', citation = ''scan.pdf'', confidence = 3 / 5, snippet = []\<rparr>"
    using generate_answer_generated [OF g r gen] unfolding m c by simp
  with r show ?thesis
    by simp
qed

subsection \<open>Batches\<close>

lemma generate_answer_returns:
  assumes "hits_valid e index DEFAULT_THRESHOLD"
  shows "\<exists>a. fst (generate_answer e q index chunks) = Inr a"
proof -
  obtain results where r:
    "retrieve e q index chunks DEFAULT_TOP_K DEFAULT_THRESHOLD = (Inr results, [IndexSearch DEFAULT_TOP_K])"
    using retrieve_returns [OF assms] by blast
  show ?thesis
    unfolding generate_answer_def Let_def r
    by (simp split: prod.splits list.splits sum.splits)
qed

lemma batch_loop_closed:
  assumes "\<And>q. \<exists>a. fst (generate_answer e q index chunks) = Inr a"
  shows "fst (batch_loop e index chunks cb n i qs acc evs) =
           Inr (acc @ map (\<lambda>qr. answer_record.extend
                              (projr (fst (generate_answer e (question qr) index chunks))) qr) qs)"
proof (induction qs arbitrary: acc evs i)
  case Nil
  show ?case by simp
next
  case (Cons qr qs)
  obtain a where a: "fst (generate_answer e (question qr) index chunks) = Inr a"
    using assms by blast
  then obtain ev where "generate_answer e (question qr) index chunks = (Inr a, ev)"
    by (cases "generate_answer e (question qr) index chunks") simp
  then show ?case
    by (simp add: Cons.IH)
qed

text \<open>
  C9. Let the index keep its contract (a hit that clears the default threshold has a
  position that is not negative). Then for every list of questions, with or without a
  progress callback, \<open>generate_batch_answers\<close> returns one record per question, in input
  order: record \<open>k\<close> carries the number and the text of question \<open>k\<close> and the fields that
  \<open>generate_answer\<close> returns for it. When the backend call of a question fails with a
  diagnostic message, the record of that question is the error sentinel (the message after
  \<open>Error generating answer: \<close>, citation \<open>N/A\<close>, confidence 0), and the batch goes on.
\<close>

theorem generate_batch_answers_total:
  assumes "hits_valid e index DEFAULT_THRESHOLD"
  shows "\<exists>answers. fst (generate_batch_answers e questions index chunks cb) = Inr answers
     \<and> length answers = length questions
     \<and> (\<forall>k<length questions.
          answer_record.more (answers ! k) = questions ! k
        \<and> fst (generate_answer e (question (questions ! k)) index chunks)
            = Inr (answer_record.truncate (answers ! k))
        \<and> (\<forall>retrieved msg.
              (check_groq_available e \<or> fst (check_ollama_available e)) \<longrightarrow>
              fst (retrieve e (question (questions ! k)) index chunks DEFAULT_TOP_K DEFAULT_THRESHOLD)
                = Inr retrieved \<longrightarrow>
              retrieved \<noteq> [] \<longrightarrow>
              fst (generate e (check_groq_available e)
                     (build_prompt (build_context retrieved) (question (questions ! k)))) = Inl msg \<longrightarrow>
              answer (answers ! k) = ''Error generating answer: '' @ msg
              \<and> citation (answers ! k) = ''N/A'' \<and> confidence (answers ! k) = 0))"
proof -
  let ?ga = "\<lambda>q. fst (generate_answer e q index chunks)"
  define answers where
    "answers = map (\<lambda>qr. answer_record.extend (projr (?ga (question qr))) qr) questions"
  have ret: "\<exists>a. ?ga q = Inr a" for q
    using assms by (rule generate_answer_returns)
  have run: "fst (generate_batch_answers e questions index chunks cb) = Inr answers"
    unfolding generate_batch_answers_def answers_def
    using batch_loop_closed [of e index chunks cb "length questions" 0 questions "[]" "[]"] ret
    by simp
  have len: "length answers = length questions"
    by (simp add: answers_def)
  have each: "answer_record.more (answers ! k) = questions ! k
        \<and> ?ga (question (questions ! k)) = Inr (answer_record.truncate (answers ! k))
        \<and> (\<forall>retrieved msg.
              (check_groq_available e \<or> fst (check_ollama_available e)) \<longrightarrow>
              fst (retrieve e (question (questions ! k)) index chunks DEFAULT_TOP_K DEFAULT_THRESHOLD)
                = Inr retrieved \<longrightarrow>
              retrieved \<noteq> [] \<longrightarrow>
              fst (generate e (check_groq_available e)
                     (build_prompt (build_context retrieved) (question (questions ! k)))) = Inl msg \<longrightarrow>
              answer (answers ! k) = ''Error generating answer: '' @ msg
              \<and> citation (answers ! k) = ''N/A'' \<and> confidence (answers ! k) = 0)"
    if k: "k < length questions" for k
  proof -
    let ?q = "question (questions ! k)"
    obtain a where a: "?ga ?q = Inr a"
      using ret by blast
    have nth: "answers ! k = answer_record.extend a (questions ! k)"
      using k by (simp add: answers_def a)
    have m: "answer_record.more (answers ! k) = questions ! k"
      unfolding nth by (simp add: answer_record.extend_def)
    have t: "answer_record.truncate (answers ! k) = a"
      unfolding nth by (simp add: answer_record.extend_def answer_record.truncate_def)
    have f: "answer (answers ! k) = answer a" "citation (answers ! k) = citation a"
      "confidence (answers ! k) = confidence a"
      unfolding nth by (simp_all add: answer_record.extend_def)
    have err: "answer (answers ! k) = ''Error generating answer: '' @ msg
              \<and> citation (answers ! k) = ''N/A'' \<and> confidence (answers ! k) = 0"
      if av: "check_groq_available e \<or> fst (check_ollama_available e)"
        and r: "fst (retrieve e ?q index chunks DEFAULT_TOP_K DEFAULT_THRESHOLD) = Inr retrieved"
        and ne: "retrieved \<noteq> []"
        and g: "fst (generate e (check_groq_available e) (build_prompt (build_context retrieved) ?q))
                  = Inl msg"
      for retrieved msg
    proof -
      obtain r0 rs where rt: "retrieved = r0 # rs"
        using ne by (cases retrieved) auto
      obtain ev3 where g': "generate e (check_groq_available e)
            (build_prompt (build_context (r0 # rs)) ?q) = (Inl msg, ev3)"
        using g unfolding rt
        by (cases "generate e (check_groq_available e) (build_prompt (build_context (r0 # rs)) ?q)")
          simp
      have "?ga ?q = Inr \<lparr>answer = ''Error generating answer: '' @ msg, citation = ''N/A'',
                     confidence = 0, snippet = []\<rparr>"
        using generate_answer_generated [OF av r [unfolded rt] g'] by simp
      with a have "a = \<lparr>answer = ''Error generating answer: '' @ msg, citation = ''N/A'',
                     confidence = 0, snippet = []\<rparr>"
        by simp
      then show ?thesis
        unfolding f by simp
    qed
    from m t a err show ?thesis
      by simp
  qed
  have all: "\<forall>k<length questions.
          answer_record.more (answers ! k) = questions ! k
        \<and> ?ga (question (questions ! k)) = Inr (answer_record.truncate (answers ! k))
        \<and> (\<forall>retrieved msg.
              (check_groq_available e \<or> fst (check_ollama_available e)) \<longrightarrow>
              fst (retrieve e (question (questions ! k)) index chunks DEFAULT_TOP_K DEFAULT_THRESHOLD)
                = Inr retrieved \<longrightarrow>
              retrieved \<noteq> [] \<longrightarrow>
              fst (generate e (check_groq_available e)
                     (build_prompt (build_context retrieved) (question (questions ! k)))) = Inl msg \<longrightarrow>
              answer (answers ! k) = ''Error generating answer: '' @ msg
              \<and> citation (answers ! k) = ''N/A'' \<and> confidence (answers ! k) = 0)"
    using each by (intro allI impI)
  show ?thesis
    by (rule exI [of _ answers]) (intro conjI run len all)
qed

text \<open>
  The theorem at a batch of two questions where the backend times out on the first one:
  the first record is the error sentinel, the second question is still answered.
\<close>

theorem generate_batch_answers_total_witness:
  "hits_valid flaky_env empty_index DEFAULT_THRESHOLD
   \<and> (\<exists>answers.
        fst (generate_batch_answers flaky_env
              [\<lparr>number = 1, question = ''Q1?''\<rparr>, \<lparr>number = 2, question = ''Q2?''\<rparr>]
              empty_index two_chunks True) = Inr answers
      \<and> length answers = 2
      \<and> answer (answers ! 0) = ''Error generating answer: Read timed out.''
      \<and> citation (answers ! 0) = ''N/A''
      \<and> confidence (answers ! 0) = 0
      \<and> answer_record.more (answers ! 0) = \<lparr>number = 1, question = ''Q1?''\<rparr>
      \<and> answer_record.more (answers ! 1) = \<lparr>number = 2, question = ''Q2?''\<rparr>
      \<and> answer_record.truncate (answers ! 1) =
            \<lparr>answer = ''Yes.'', citation = ''ops.pdf'', confidence = 9 / 10,
             snippet = ''Backups run nightly...''\<rparr>)"
proof -
  let ?qs = "[\<lparr>number = 1, question = ''Q1?''\<rparr>, \<lparr>number = 2, question = ''Q2?''\<rparr>]"
  let ?r = "\<lparr>rtext = ''Backups run nightly'', rsource = ''ops.pdf'', score = 9 / 10\<rparr>"
  have hv: "hits_valid flaky_env empty_index DEFAULT_THRESHOLD"
    by (simp add: hits_valid_def flaky_env_def np_ge_def float32_of_default)
  have av: "check_groq_available flaky_env \<or> fst (check_ollama_available flaky_env)"
    by (simp add: check_groq_available_def flaky_env_def)
  have r: "fst (retrieve flaky_env q empty_index two_chunks DEFAULT_TOP_K DEFAULT_THRESHOLD)
             = Inr [?r]" for q
    by (simp add: retrieve_def flaky_env_def two_chunks_def get_embedding_def py_index_def
        np_ge_def float32_of_default Let_def)
  have ne: "[?r] \<noteq> []"
    by simp
  have g1: "fst (generate flaky_env (check_groq_available flaky_env)
                   (build_prompt (build_context [?r]) ''Q1?'')) = Inl ''Read timed out.''"
    unfolding generate_def generate_with_groq_def
    by (simp add: check_groq_available_def flaky_env_def)
  have neq: "build_prompt (build_context [?r]) ''Q2?'' \<noteq> build_prompt (build_context [?r]) ''Q1?''"
    by (simp add: build_prompt_def)
  have g2: "generate flaky_env (check_groq_available flaky_env)
                   (build_prompt (build_context [?r]) ''Q2?'')
            = (Inr ''Yes.'', [HttpPost GROQ_URL GROQ_MODEL (build_prompt (build_context [?r]) ''Q2?'')])"
    unfolding generate_def generate_with_groq_def
    by (simp add: check_groq_available_def flaky_env_def neq strip_def is_space_def)
  have p: "py_round2 (9 / 10) = 9 / 10"
    by (simp add: py_round2_def)
  have a2: "fst (generate_answer flaky_env ''Q2?'' empty_index two_chunks)
      = Inr \<lparr>answer = ''Yes.'', citation = ''ops.pdf'', confidence = 9 / 10,
             snippet = ''Backups run nightly...''\<rparr>"
    using generate_answer_generated [OF av r g2] by (simp add: dict_keys_fromkeys p)
  from generate_batch_answers_total [OF hv, of ?qs two_chunks True] obtain answers where a:
    "fst (generate_batch_answers flaky_env ?qs empty_index two_chunks True) = Inr answers
     \<and> length answers = length ?qs
     \<and> (\<forall>k<length ?qs.
          answer_record.more (answers ! k) = ?qs ! k
        \<and> fst (generate_answer flaky_env (question (?qs ! k)) empty_index two_chunks)
            = Inr (answer_record.truncate (answers ! k))
        \<and> (\<forall>retrieved msg.
              (check_groq_available flaky_env \<or> fst (check_ollama_available flaky_env)) \<longrightarrow>
              fst (retrieve flaky_env (question (?qs ! k)) empty_index two_chunks
                     DEFAULT_TOP_K DEFAULT_THRESHOLD) = Inr retrieved \<longrightarrow>
              retrieved \<noteq> [] \<longrightarrow>
              fst (generate flaky_env (check_groq_available flaky_env)
                     (build_prompt (build_context retrieved) (question (?qs ! k)))) = Inl msg \<longrightarrow>
              answer (answers ! k) = ''Error generating answer: '' @ msg
              \<and> citation (answers ! k) = ''N/A'' \<and> confidence (answers ! k) = 0))" ..
  note run = a [THEN conjunct1] and len = a [THEN conjunct2, THEN conjunct1]
    and each = a [THEN conjunct2, THEN conjunct2, rule_format]
  have k0: "(0::nat) < length ?qs" and k1: "(1::nat) < length ?qs"
    by simp_all
  have m0: "answer_record.more (answers ! 0) = \<lparr>number = 1, question = ''Q1?''\<rparr>"
    using each [OF k0, THEN conjunct1] by simp
  have e0: "answer (answers ! 0) = ''Error generating answer: '' @ ''Read timed out.''
              \<and> citation (answers ! 0) = ''N/A'' \<and> confidence (answers ! 0) = 0"
  proof (rule each [OF k0, THEN conjunct2, THEN conjunct2, rule_format, of "[?r]"])
    show "check_groq_available flaky_env \<or> fst (check_ollama_available flaky_env)"
      by (rule av)
    show "fst (retrieve flaky_env (question (?qs ! 0)) empty_index two_chunks
                 DEFAULT_TOP_K DEFAULT_THRESHOLD) = Inr [?r]"
      by (rule r)
    show "[?r] \<noteq> []"
      by simp
    show "fst (generate flaky_env (check_groq_available flaky_env)
                 (build_prompt (build_context [?r]) (question (?qs ! 0)))) = Inl ''Read timed out.''"
      using g1 by simp
  qed
  have m1: "answer_record.more (answers ! 1) = \<lparr>number = 2, question = ''Q2?''\<rparr>"
    using each [OF k1, THEN conjunct1] by simp
  have "fst (generate_answer flaky_env ''Q2?'' empty_index two_chunks)
            = Inr (answer_record.truncate (answers ! 1))"
    using each [OF k1, THEN conjunct2, THEN conjunct1] by simp
  with a2 have t1: "answer_record.truncate (answers ! 1) =
            \<lparr>answer = ''Yes.'', citation = ''ops.pdf'', confidence = 9 / 10,
             snippet = ''Backups run nightly...''\<rparr>"
    by simp
  have "fst (generate_batch_answers flaky_env ?qs empty_index two_chunks True) = Inr answers
      \<and> length answers = 2
      \<and> answer (answers ! 0) = ''Error generating answer: Read timed out.''
      \<and> citation (answers ! 0) = ''N/A''
      \<and> confidence (answers ! 0) = 0
      \<and> answer_record.more (answers ! 0) = \<lparr>number = 1, question = ''Q1?''\<rparr>
      \<and> answer_record.more (answers ! 1) = \<lparr>number = 2, question = ''Q2?''\<rparr>
      \<and> answer_record.truncate (answers ! 1) =
            \<lparr>answer = ''Yes.'', citation = ''ops.pdf'', confidence = 9 / 10,
             snippet = ''Backups run nightly...''\<rparr>"
    using run len e0 m0 m1 t1 by simp
  then have "\<exists>answers.
        fst (generate_batch_answers flaky_env ?qs empty_index two_chunks True) = Inr answers
      \<and> length answers = 2
      \<and> answer (answers ! 0) = ''Error generating answer: Read timed out.''
      \<and> citation (answers ! 0) = ''N/A''
      \<and> confidence (answers ! 0) = 0
      \<and> answer_record.more (answers ! 0) = \<lparr>number = 1, question = ''Q1?''\<rparr>
      \<and> answer_record.more (answers ! 1) = \<lparr>number = 2, question = ''Q2?''\<rparr>
      \<and> answer_record.truncate (answers ! 1) =
            \<lparr>answer = ''Yes.'', citation = ''ops.pdf'', confidence = 9 / 10,
             snippet = ''Backups run nightly...''\<rparr>"
    by (rule exI [of _ answers])
  with hv show ?thesis
    by (rule conjI)
qed

subsection \<open>Coverage\<close>






end
